theory Spec2Isabelle
  imports Main "HOL-Library.Multiset"
begin

section \<open>Go library functions used by the three agents\<close>

text \<open>
  Strings are byte lists. Case folding, white space and decimal numerals are modelled on the
  ASCII range, which is where \<^verbatim>\<open>strings.EqualFold\<close>, \<^verbatim>\<open>strings.ToLower\<close>,
  \<^verbatim>\<open>strings.TrimSpace\<close>, \<^verbatim>\<open>strconv.Atoi\<close> and the \<^verbatim>\<open>%d\<close> verb agree with the
  definitions below; bytes above 127 are compared exactly. Go's \<^verbatim>\<open>int\<close> is the 64-bit
  signed integer: values are kept in \<open>int\<close> and the one increment that can leave the range
  (\<open>go_inc\<close>) wraps as the machine does.
\<close>

definition toLowerChar :: "char \<Rightarrow> char" where
  "toLowerChar c =
     (case map_of (zip ''ABCDEFGHIJKLMNOPQRSTUVWXYZ'' ''abcdefghijklmnopqrstuvwxyz'') c of
        Some l \<Rightarrow> l
      | None \<Rightarrow> c)"

definition ToLower :: "string \<Rightarrow> string" where
  "ToLower s = map toLowerChar s"

definition EqualFold :: "string \<Rightarrow> string \<Rightarrow> bool" where
  "EqualFold s t = (ToLower s = ToLower t)"

definition isSpace :: "char \<Rightarrow> bool" where
  "isSpace c = (c \<in> set [CHR 0x09, CHR 0x0A, CHR 0x0B, CHR 0x0C, CHR 0x0D, CHR 0x20])"

definition TrimSpace :: "string \<Rightarrow> string" where
  "TrimSpace s = rev (dropWhile isSpace (rev (dropWhile isSpace s)))"

fun hasPrefix :: "string \<Rightarrow> string \<Rightarrow> bool" where
  "hasPrefix s [] = True"
| "hasPrefix [] (p # ps) = False"
| "hasPrefix (c # cs) (p # ps) = (c = p \<and> hasPrefix cs ps)"

fun Contains :: "string \<Rightarrow> string \<Rightarrow> bool" where
  "Contains [] sub = (sub = [])"
| "Contains (c # cs) sub = (hasPrefix (c # cs) sub \<or> Contains cs sub)"

definition maxInt :: int where
  "maxInt = 9223372036854775807"

definition minInt :: int where
  "minInt = - 9223372036854775808"

definition go_inc :: "int \<Rightarrow> int" where
  "go_inc n = (if n = maxInt then minInt else n + 1)"

function natDigits :: "nat \<Rightarrow> string" where
  "natDigits n =
     (if n < 10 then [''0123456789'' ! n]
      else natDigits (n div 10) @ [''0123456789'' ! (n mod 10)])"
  by pat_completeness auto
termination
  by (relation "measure (\<lambda>n. n)") auto

declare natDigits.simps [simp del]

definition Itoa :: "int \<Rightarrow> string" where
  "Itoa i = (if i < 0 then CHR ''-'' # natDigits (nat (- i)) else natDigits (nat i))"

definition isDigit :: "char \<Rightarrow> bool" where
  "isDigit c = (let n = (of_char c :: nat) in 48 \<le> n \<and> n \<le> 57)"

definition digitsValue :: "string \<Rightarrow> nat" where
  "digitsValue ds = foldl (\<lambda>acc c. 10 * acc + (of_char c - 48)) 0 ds"

definition Atoi :: "string \<Rightarrow> int option" where
  "Atoi s =
     (let (neg, ds) =
        (case s of
           [] \<Rightarrow> (False, [])
         | c # r \<Rightarrow>
             if c = CHR ''-'' then (True, r)
             else if c = CHR ''+'' then (False, r)
             else (False, s))
      in if ds = [] then None
         else if list_all isDigit ds then
           (let v = int (digitsValue ds); r = (if neg then - v else v)
            in if r < minInt then None else if maxInt < r then None else Some r)
         else None)"

text \<open>\<^verbatim>\<open>fmt.Sprintf("%d.%d.%d", d, t, n)\<close>, the lawsuit identifier.\<close>

definition sprintfID :: "int \<Rightarrow> int \<Rightarrow> int \<Rightarrow> string" where
  "sprintfID d t n = Itoa d @ ''.'' @ Itoa t @ ''.'' @ Itoa n"


section \<open>Trial agent: data structures\<close>

record Lawsuit =
  ID :: string
  Plaintiff :: string
  Defendant :: string
  CauseAction :: int
  Claims :: "int list"
  Connected :: "string list"
  ClaimLegacy :: int

record TrialState =
  DistrictID :: int
  DistrictName :: string
  TrialID :: int
  TrialAddr :: string
  NextSeq :: int
  ActivesLawsuits :: "Lawsuit list"
  LawsuitsDisWithMerit :: "Lawsuit list"
  LawsuitsDisWithoutMerit :: "Lawsuit list"

text \<open>
  The store is the in-memory state together with the file it is persisted to. \<open>stateFile\<close> is
  the content of the canonical state file (\<open>None\<close>: no file yet). \<open>diskFault\<close> is
  \<open>None\<close> when creating, encoding and renaming the temporary file succeeds, and otherwise
  the text of the operating system's error. The mutex is not modelled: every operation below
  is one critical section.
\<close>

record TrialStore =
  state :: TrialState
  stateFile :: "TrialState option"
  diskFault :: "string option"

text \<open>
  Every error value the three programs build. \<open>IOError\<close> carries what the operating
  system reports when a state file cannot be written, \<open>Transport\<close> stands for a failed or
  timed-out exchange with the agent at the given address.
\<close>

datatype error =
    NotFoundActive string
  | NotFoundMerge string
  | NotFoundConnection string
  | DistrictNotFound
  | IOError string
  | Transport string
  | NoLocalTrials
  | RefusedFree string

record ActionQuery =
  qPlaintiff :: string
  qDefendant :: string
  qCauseID :: int
  qClaims :: "int list"


section \<open>Trial agent: comparison of claim lists\<close>

fun countInto :: "(int \<Rightarrow> int) \<Rightarrow> int list \<Rightarrow> (int \<Rightarrow> int)" where
  "countInto m [] = m"
| "countInto m (x # xs) = countInto (m(x := m x + 1)) xs"

fun consume :: "(int \<Rightarrow> int) \<Rightarrow> int list \<Rightarrow> (int \<Rightarrow> int) option" where
  "consume m [] = Some m"
| "consume m (x # xs) = (if m x = 0 then None else consume (m(x := m x - 1)) xs)"

text \<open>The last loop of \<^verbatim>\<open>sameIntSet\<close> ranges over the keys of the map, the elements of \<open>a\<close>.\<close>

definition sameIntSet :: "int list \<Rightarrow> int list \<Rightarrow> bool" where
  "sameIntSet a b =
     (if length a \<noteq> length b then False
      else case consume (countInto (\<lambda>_. 0) a) b of
             None \<Rightarrow> False
           | Some m \<Rightarrow> list_all (\<lambda>k. m k = 0) a)"

fun markAll :: "(int \<Rightarrow> bool) \<Rightarrow> int list \<Rightarrow> (int \<Rightarrow> bool)" where
  "markAll s [] = s"
| "markAll s (x # xs) = markAll (s(x := True)) xs"

fun allMarked :: "(int \<Rightarrow> bool) \<Rightarrow> int list \<Rightarrow> bool" where
  "allMarked s [] = True"
| "allMarked s (x # xs) = (if s x then allMarked s xs else False)"

fun anyMarked :: "(int \<Rightarrow> bool) \<Rightarrow> int list \<Rightarrow> bool" where
  "anyMarked s [] = False"
| "anyMarked s (x # xs) = (if s x then True else anyMarked s xs)"

definition isSubset :: "int list \<Rightarrow> int list \<Rightarrow> bool" where
  "isSubset sub super =
     (if length super < length sub then False
      else allMarked (markAll (\<lambda>_. False) super) sub)"

definition hasOverlap :: "int list \<Rightarrow> int list \<Rightarrow> bool" where
  "hasOverlap a b = anyMarked (markAll (\<lambda>_. False) a) b"


section \<open>Trial agent: the stage predicates\<close>

definition identical :: "ActionQuery \<Rightarrow> Lawsuit \<Rightarrow> bool" where
  "identical q a =
     (EqualFold (Plaintiff a) (qPlaintiff q) \<and>
      EqualFold (Defendant a) (qDefendant q) \<and>
      CauseAction a = qCauseID q \<and>
      sameIntSet (Claims a) (qClaims q))"

fun firstMatch :: "(Lawsuit \<Rightarrow> bool) \<Rightarrow> Lawsuit list \<Rightarrow> Lawsuit option" where
  "firstMatch p [] = None"
| "firstMatch p (a # as) = (if p a then Some a else firstMatch p as)"

definition findIdenticalDwM :: "TrialStore \<Rightarrow> string \<Rightarrow> ActionQuery \<Rightarrow> Lawsuit option" where
  "findIdenticalDwM ts list q =
     (if list = ''dis_with'' then firstMatch (identical q) (LawsuitsDisWithMerit (state ts))
      else if list = ''dis_without'' then
        firstMatch (identical q) (LawsuitsDisWithoutMerit (state ts))
      else if list = ''actives'' then firstMatch (identical q) (ActivesLawsuits (state ts))
      else None)"

fun joinderLoop :: "ActionQuery \<Rightarrow> Lawsuit list \<Rightarrow> (string \<times> Lawsuit) option" where
  "joinderLoop q [] = None"
| "joinderLoop q (a # as) =
     (if \<not> EqualFold (Plaintiff a) (qPlaintiff q) then joinderLoop q as
      else if \<not> EqualFold (Defendant a) (qDefendant q) then joinderLoop q as
      else if CauseAction a \<noteq> qCauseID q then joinderLoop q as
      else if sameIntSet (Claims a) (qClaims q) then joinderLoop q as
      else if isSubset (qClaims q) (Claims a) then Some (''joinder_contained'', a)
      else if isSubset (Claims a) (qClaims q) then Some (''joinder_continent'', a)
      else joinderLoop q as)"

definition findJoinder :: "TrialStore \<Rightarrow> ActionQuery \<Rightarrow> (string \<times> Lawsuit) option" where
  "findJoinder ts q = joinderLoop q (ActivesLawsuits (state ts))"

fun connectionLoop :: "ActionQuery \<Rightarrow> Lawsuit list \<Rightarrow> Lawsuit option" where
  "connectionLoop q [] = None"
| "connectionLoop q (a # as) =
     (if EqualFold (Plaintiff a) (qPlaintiff q) \<and>
         EqualFold (Defendant a) (qDefendant q) \<and>
         CauseAction a = qCauseID q
      then connectionLoop q as
      else
        (let sameCause = (CauseAction a = qCauseID q);
             commonClaims = hasOverlap (Claims a) (qClaims q)
         in if sameCause \<or> commonClaims then Some a else connectionLoop q as))"

definition findConnection :: "TrialStore \<Rightarrow> ActionQuery \<Rightarrow> Lawsuit option" where
  "findConnection ts q = connectionLoop q (ActivesLawsuits (state ts))"


section \<open>Trial agent: the lawsuit store\<close>

definition saveLocked :: "TrialStore \<Rightarrow> error option \<times> TrialStore" where
  "saveLocked ts =
     (case diskFault ts of
        None \<Rightarrow> (None, ts\<lparr>stateFile := Some (state ts)\<rparr>)
      | Some txt \<Rightarrow> (Some (IOError txt), ts))"

definition nextID :: "TrialStore \<Rightarrow> string \<times> TrialStore" where
  "nextID ts =
     (let seq = NextSeq (state ts);
          ts1 = ts\<lparr>state := (state ts)\<lparr>NextSeq := go_inc seq\<rparr>\<rparr>
      in (sprintfID (DistrictID (state ts1)) (TrialID (state ts1)) seq, ts1))"

definition CreateLawsuit ::
  "TrialStore \<Rightarrow> string \<Rightarrow> string \<Rightarrow> int \<Rightarrow> int list \<Rightarrow> string list \<Rightarrow>
   (error + Lawsuit) \<times> TrialStore" where
  "CreateLawsuit ts plaintiff defendant cause claims connected =
     (let (lid, ts1) = nextID ts;
          a = \<lparr>ID = lid, Plaintiff = plaintiff, Defendant = defendant, CauseAction = cause,
               Claims = claims, Connected = connected, ClaimLegacy = 0\<rparr>;
          ts2 = ts1\<lparr>state := (state ts1)\<lparr>ActivesLawsuits := ActivesLawsuits (state ts1) @ [a]\<rparr>\<rparr>
      in case saveLocked ts2 of
           (Some err, ts3) \<Rightarrow> (Inl err, ts3)
         | (None, ts3) \<Rightarrow> (Inr a, ts3))"

fun indexOfID :: "string \<Rightarrow> Lawsuit list \<Rightarrow> nat option" where
  "indexOfID lid [] = None"
| "indexOfID lid (a # as) = (if ID a = lid then Some 0 else map_option Suc (indexOfID lid as))"



definition CountActives :: "TrialStore \<Rightarrow> int" where
  "CountActives ts = int (length (ActivesLawsuits (state ts)))"

definition addUnique :: "int list \<Rightarrow> int \<Rightarrow> int list" where
  "addUnique slice val = (if val \<in> set slice then slice else slice @ [val])"

fun mergeLoop :: "int list \<Rightarrow> int list \<Rightarrow> int list" where
  "mergeLoop cl [] = cl"
| "mergeLoop cl (p # ps) = mergeLoop (addUnique cl p) ps"

fun addClaimsLoop :: "string \<Rightarrow> int list \<Rightarrow> Lawsuit list \<Rightarrow> Lawsuit list \<times> bool" where
  "addClaimsLoop lid newClaims [] = ([], False)"
| "addClaimsLoop lid newClaims (a # as) =
     (if ID a = lid then (a\<lparr>Claims := mergeLoop (Claims a) newClaims\<rparr> # as, True)
      else (let (as', found) = addClaimsLoop lid newClaims as in (a # as', found)))"

definition AddClaims :: "TrialStore \<Rightarrow> string \<Rightarrow> int list \<Rightarrow> error option \<times> TrialStore" where
  "AddClaims ts LawsuitID newClaims =
     (let (acts, found) = addClaimsLoop LawsuitID newClaims (ActivesLawsuits (state ts));
          ts1 = ts\<lparr>state := (state ts)\<lparr>ActivesLawsuits := acts\<rparr>\<rparr>
      in if found then saveLocked ts1 else (Some (NotFoundMerge LawsuitID), ts1))"

definition addUniqueStr :: "string list \<Rightarrow> string \<Rightarrow> string list" where
  "addUniqueStr slice val = (if val \<in> set slice then slice else slice @ [val])"

text \<open>The search loop of \<^verbatim>\<open>AddConnection\<close> has no \<^verbatim>\<open>break\<close>: the last index with the lid wins.\<close>

fun lastIndexOfID :: "string \<Rightarrow> Lawsuit list \<Rightarrow> nat \<Rightarrow> nat option \<Rightarrow> nat option" where
  "lastIndexOfID lid [] i r = r"
| "lastIndexOfID lid (a # as) i r = lastIndexOfID lid as (Suc i) (if ID a = lid then Some i else r)"

definition connectAt :: "Lawsuit list \<Rightarrow> nat \<Rightarrow> string \<Rightarrow> Lawsuit list" where
  "connectAt acts i other = acts[i := (acts ! i)\<lparr>Connected := addUniqueStr (Connected (acts ! i)) other\<rparr>]"

definition AddConnection :: "TrialStore \<Rightarrow> string \<Rightarrow> string \<Rightarrow> error option \<times> TrialStore" where
  "AddConnection ts LawsuitID otherID =
     (let acts = ActivesLawsuits (state ts)
      in case lastIndexOfID LawsuitID acts 0 None of
           None \<Rightarrow> (Some (NotFoundConnection LawsuitID), ts)
         | Some idx1 \<Rightarrow>
             (case lastIndexOfID otherID acts 0 None of
                None \<Rightarrow>
                  saveLocked (ts\<lparr>state := (state ts)
                                \<lparr>ActivesLawsuits := connectAt acts idx1 otherID\<rparr>\<rparr>)
              | Some idx2 \<Rightarrow>
                  saveLocked (ts\<lparr>state := (state ts)
                                \<lparr>ActivesLawsuits :=
                                   connectAt (connectAt acts idx1 otherID) idx2 LawsuitID\<rparr>\<rparr>)))"

definition searchMatch :: "string \<Rightarrow> string \<Rightarrow> Lawsuit \<Rightarrow> bool" where
  "searchMatch field val a =
     (if field = ''id'' then EqualFold (ID a) val
      else if field = ''plaintiff'' then Contains (ToLower (Plaintiff a)) (ToLower val)
      else if field = ''defendant'' then Contains (ToLower (Defendant a)) (ToLower val)
      else if field = ''cause'' then
        (case Atoi val of None \<Rightarrow> False | Some n \<Rightarrow> CauseAction a = n)
      else if field = ''claim'' then
        (case Atoi val of None \<Rightarrow> False | Some n \<Rightarrow> n \<in> set (Claims a))
      else False)"

definition SearchLawsuits :: "TrialStore \<Rightarrow> string \<Rightarrow> string \<Rightarrow> (string \<times> Lawsuit) list" where
  "SearchLawsuits ts field val =
     map (Pair ''Active'') (filter (searchMatch field val) (ActivesLawsuits (state ts))) @
     map (Pair ''Dismissed with merit'')
       (filter (searchMatch field val) (LawsuitsDisWithMerit (state ts))) @
     map (Pair ''Dismissed without merit'')
       (filter (searchMatch field val) (LawsuitsDisWithoutMerit (state ts)))"


section \<open>Trial agent: wire messages and handlers\<close>

text \<open>
  One record holds every field a request to the trial can carry; a field absent from the
  JSON object has Go's zero value. A datagram is \<open>Garbled\<close> when not even its type tag
  decodes, \<open>BadFields t\<close> when the tag \<open>t\<close> decodes but the request structure of the handler
  chosen by \<open>t\<close> does not, and \<open>Msg r\<close> otherwise.
\<close>

record TrialRequest =
  tType :: string
  tStage :: string
  tLawsuit :: ActionQuery
  tReason :: string
  tRelated :: string
  tLawsuitID :: string
  tNewClaims :: "int list"
  tField :: string
  tValue :: string
  tTrialID :: int

datatype datagram = Garbled | BadFields string | Msg TrialRequest

record TrialActionQueryResponse =
  rSuccess :: bool
  rStage :: string
  rMatch :: string
  rMessage :: string
  rLawsuitID :: string
  rDistrictID :: int
  rDistrictName :: string
  rTrialID :: int
  rTrialAddr :: string
  rExistentClaims :: "int list"
  rConnectedLawsuits :: "string list"

record TrialCreateActionResponse =
  cSuccess :: bool
  cMessage :: string
  cLawsuitID :: string
  cDistrictID :: int
  cDistrictName :: string
  cTrialID :: int
  cTrialAddr :: string

record TrialMergeClaimsResponse =
  mSuccess :: bool
  mMessage :: string

record TrialSearchResult =
  sList :: string
  sID :: string
  sPlaintiff :: string
  sDefendant :: string
  sCauseAction :: int
  sClaims :: "int list"

record TrialSearchLawsuitsResponse =
  srSuccess :: bool
  srMessage :: string
  srDistrictID :: int
  srDistrictName :: string
  srTrialID :: int
  srTrialAddr :: string
  srResults :: "TrialSearchResult list"

record WorkloadInfoResponse =
  wSuccess :: bool
  wMessage :: string
  wDistrictID :: int
  wDistrictName :: string
  wTrialID :: int
  wTrialAddr :: string
  wActiveWorkload :: int

record GenericResponse =
  gSuccess :: bool
  gMessage :: string

datatype trial_reply =
    QueryReply TrialActionQueryResponse
  | CreateReply TrialCreateActionResponse
  | MergeReply TrialMergeClaimsResponse
  | SearchReply TrialSearchLawsuitsResponse
  | WorkloadReply WorkloadInfoResponse
  | GenericReply GenericResponse

text \<open>The \<^verbatim>\<open>%v\<close> rendering of an error inside a reply message.\<close>

definition errText :: "error \<Rightarrow> string" where
  "errText e =
     (case e of
        NotFoundActive lid \<Rightarrow>
          ''lawsuit \"'' @ lid @ ''\" not found in the actives lawsuits list''
      | NotFoundMerge lid \<Rightarrow>
          ''lawsuit '' @ lid @ '' not found between the actives lawsuits for claims'' @
          [CHR 0x27] @ '' merge''
      | NotFoundConnection lid \<Rightarrow> ''lawsuit '' @ lid @ '' not found for connection''
      | DistrictNotFound \<Rightarrow> ''district not found''
      | IOError txt \<Rightarrow> txt
      | Transport txt \<Rightarrow> txt
      | NoLocalTrials \<Rightarrow> ''no registered trials in this district''
      | RefusedFree txt \<Rightarrow> ''trial refused create lawsuit by free distribution: '' @ txt)"

definition handleLawsuitQuery :: "TrialStore \<Rightarrow> TrialRequest \<Rightarrow> TrialActionQueryResponse" where
  "handleLawsuitQuery ts req =
     (let resp = \<lparr>rSuccess = True, rStage = tStage req, rMatch = ''none'',
                  rMessage = ''no corresponding lawsuit found in this trial'',
                  rLawsuitID = [],
                  rDistrictID = DistrictID (state ts), rDistrictName = DistrictName (state ts),
                  rTrialID = TrialID (state ts), rTrialAddr = TrialAddr (state ts),
                  rExistentClaims = [], rConnectedLawsuits = []\<rparr>
      in if tStage req = ''res_judicata'' then
           (case findIdenticalDwM ts ''dis_with'' (tLawsuit req) of
              Some a \<Rightarrow>
                resp\<lparr>rMatch := ''res_judicata'',
                     rMessage := ''identical lawsuit found in dismissed whith prejudice (merit judgment -> res judicata).'',
                     rLawsuitID := ID a\<rparr>
            | None \<Rightarrow> resp)
         else if tStage req = ''lis_pendens'' then
           (case findIdenticalDwM ts ''actives'' (tLawsuit req) of
              Some a \<Rightarrow>
                resp\<lparr>rMatch := ''lis_pendens'',
                     rMessage := ''identical lawsuit found in actives lawsuits (lis pendens).'',
                     rLawsuitID := ID a\<rparr>
            | None \<Rightarrow> resp)
         else if tStage req = ''repeated_request'' then
           (case findIdenticalDwM ts ''dis_without'' (tLawsuit req) of
              Some a \<Rightarrow>
                resp\<lparr>rMatch := ''repeated_request'',
                     rMessage := ''identical lawsuit found in dismissed without prejudice (no merit judgment -> repeated request).'',
                     rLawsuitID := ID a\<rparr>
            | None \<Rightarrow> resp)
         else if tStage req = ''joinder'' then
           (case findJoinder ts (tLawsuit req) of
              Some (matchType, a) \<Rightarrow>
                resp\<lparr>rMatch := matchType,
                     rMessage :=
                       (if matchType = ''joinder_contained'' then
                          ''the new lawsuit is CONTAINED in the already existent lawsuit (smaller claim).''
                        else if matchType = ''joinder_continent'' then
                          ''the new lawsuit is CONTINENT in relation with already existent lawsuit (bigger claim).''
                        else rMessage resp),
                     rLawsuitID := ID a,
                     rExistentClaims := Claims a\<rparr>
            | None \<Rightarrow> resp)
         else if tStage req = ''connection'' then
           (case findConnection ts (tLawsuit req) of
              Some a \<Rightarrow>
                resp\<lparr>rMatch := ''connection'',
                     rMessage := ''found a connected lawsuit (same cause of action and/or common claims).'',
                     rLawsuitID := ID a,
                     rConnectedLawsuits := Connected a\<rparr>
            | None \<Rightarrow> resp)
         else resp\<lparr>rSuccess := False, rMessage := ''unknown stage in the lawsuit_query''\<rparr>)"

definition handleLawsuitCreate ::
  "TrialStore \<Rightarrow> TrialRequest \<Rightarrow> TrialCreateActionResponse \<times> TrialStore" where
  "handleLawsuitCreate ts req =
     (let resp = \<lparr>cSuccess = False, cMessage = [], cLawsuitID = [],
                  cDistrictID = DistrictID (state ts), cDistrictName = DistrictName (state ts),
                  cTrialID = TrialID (state ts), cTrialAddr = TrialAddr (state ts)\<rparr>;
          q = tLawsuit req
      in if qPlaintiff q = [] \<or> qDefendant q = [] \<or> qCauseID q = 0 \<or> length (qClaims q) = 0
         then (resp\<lparr>cMessage := ''iInsufficient data for the lawsuit in the lawsuit_create''\<rparr>, ts)
         else
           (case CreateLawsuit ts (qPlaintiff q) (qDefendant q) (qCauseID q) (qClaims q) [] of
              (Inl err, ts1) \<Rightarrow>
                (resp\<lparr>cMessage := ''error while creating lawsuit: '' @ errText err\<rparr>, ts1)
            | (Inr new_lawsuit, ts1) \<Rightarrow>
                (let resp1 = resp\<lparr>cSuccess := True, cLawsuitID := ID new_lawsuit\<rparr>
                 in if tReason req = ''free'' then
                      (resp1\<lparr>cMessage := ''lawsuit created by free distribution''\<rparr>, ts1)
                    else if tReason req = ''repeated_request'' then
                      (resp1\<lparr>cMessage :=
                          ''lawsuit created as REPEATED REQUEST (related to the lawsuit '' @
                          tRelated req @ '')''\<rparr>, ts1)
                    else if tReason req = ''connection'' then
                      (resp1\<lparr>cMessage :=
                          ''lawsuit created as CONNECTED to the lawsuit '' @ tRelated req\<rparr>,
                       if tRelated req \<noteq> [] then
                         snd (AddConnection ts1 (ID new_lawsuit) (tRelated req))
                       else ts1)
                    else (resp1\<lparr>cMessage := ''lawsuit created''\<rparr>, ts1))))"

definition handleLawsuitMergeClaims ::
  "TrialStore \<Rightarrow> TrialRequest \<Rightarrow> TrialMergeClaimsResponse \<times> TrialStore" where
  "handleLawsuitMergeClaims ts req =
     (if tLawsuitID req = [] \<or> length (tNewClaims req) = 0 then
        (\<lparr>mSuccess = False,
          mMessage = ''Invalid Lawsuit_id or new_claims in the lawsuit_merge_claims''\<rparr>, ts)
      else
        (case AddClaims ts (tLawsuitID req) (tNewClaims req) of
           (Some err, ts1) \<Rightarrow>
             (\<lparr>mSuccess = False,
               mMessage = ''error while merging claims to the lawsuit '' @ tLawsuitID req @
                          '': '' @ errText err\<rparr>, ts1)
         | (None, ts1) \<Rightarrow>
             (\<lparr>mSuccess = True,
               mMessage = ''claims were merged with success to the lawsuit '' @
                          tLawsuitID req\<rparr>, ts1)))"

definition handleSearchLawsuit :: "TrialStore \<Rightarrow> TrialRequest \<Rightarrow> TrialSearchLawsuitsResponse" where
  "handleSearchLawsuit ts req =
     (let results = SearchLawsuits ts (tField req) (tValue req)
      in \<lparr>srSuccess = True,
          srMessage = Itoa (int (length results)) @ '' lawsuits found'',
          srDistrictID = DistrictID (state ts), srDistrictName = DistrictName (state ts),
          srTrialID = TrialID (state ts), srTrialAddr = TrialAddr (state ts),
          srResults =
            map (\<lambda>(l, a). \<lparr>sList = l, sID = ID a, sPlaintiff = Plaintiff a,
                             sDefendant = Defendant a, sCauseAction = CauseAction a,
                             sClaims = Claims a\<rparr>) results\<rparr>)"

definition handleWorkloadInfo :: "TrialStore \<Rightarrow> WorkloadInfoResponse" where
  "handleWorkloadInfo ts =
     \<lparr>wSuccess = True,
      wMessage = ''Trial'' @ [CHR 0x27] @ ''s workload successfully returned.'',
      wDistrictID = DistrictID (state ts), wDistrictName = DistrictName (state ts),
      wTrialID = TrialID (state ts), wTrialAddr = TrialAddr (state ts),
      wActiveWorkload = CountActives ts\<rparr>"

definition unrecognizedReply :: GenericResponse where
  "unrecognizedReply =
     \<lparr>gSuccess = True,
      gMessage = ''Trial received message, but the type is not recognized by the lawsuits'' @
                 [CHR 0x27] @ '' logic.''\<rparr>"

text \<open>
  \<^verbatim>\<open>handlePacket\<close> returns the datagram written back to the sender, if any, and the store
  after the handler has run. A handler whose request structure does not decode logs the
  error and returns without replying; \<^verbatim>\<open>handleWorkloadInfo\<close> decodes nothing.
\<close>

definition dispatch :: "string \<Rightarrow> TrialRequest option \<Rightarrow> TrialStore \<Rightarrow> trial_reply option \<times> TrialStore" where
  "dispatch ty body ts =
     (if ty = ''lawsuit_query'' then
        (case body of
           None \<Rightarrow> (None, ts)
         | Some req \<Rightarrow> (Some (QueryReply (handleLawsuitQuery ts req)), ts))
      else if ty = ''lawsuit_create'' then
        (case body of
           None \<Rightarrow> (None, ts)
         | Some req \<Rightarrow>
             (let (resp, ts1) = handleLawsuitCreate ts req in (Some (CreateReply resp), ts1)))
      else if ty = ''lawsuit_merge_claims'' then
        (case body of
           None \<Rightarrow> (None, ts)
         | Some req \<Rightarrow>
             (let (resp, ts1) = handleLawsuitMergeClaims ts req in (Some (MergeReply resp), ts1)))
      else if ty = ''search_lawsuit'' then
        (case body of
           None \<Rightarrow> (None, ts)
         | Some req \<Rightarrow> (Some (SearchReply (handleSearchLawsuit ts req)), ts))
      else if ty = ''workload_info'' then (Some (WorkloadReply (handleWorkloadInfo ts)), ts)
      else (Some (GenericReply unrecognizedReply), ts))"

definition handlePacket :: "datagram \<Rightarrow> TrialStore \<Rightarrow> trial_reply option \<times> TrialStore" where
  "handlePacket data ts =
     (case data of
        Garbled \<Rightarrow>
          (Some (GenericReply
             \<lparr>gSuccess = False,
              gMessage = ''error while decoding trial'' @ [CHR 0x27] @ ''s message''\<rparr>), ts)
      | BadFields ty \<Rightarrow> dispatch ty None ts
      | Msg req \<Rightarrow> dispatch (tType req) (Some req) ts)"


section \<open>Court agent: the district registry\<close>

record District =
  dID :: int
  dName :: string
  dAddress :: string
  dTrials :: int

text \<open>
  The registry with its file, as for the trial store: \<open>listFile\<close> is the persisted list and
  \<open>listFault\<close> the error every write meets, if any.
\<close>

record DistrictList =
  Items :: "District list"
  listFile :: "District list option"
  listFault :: "string option"








fun firstNamed :: "string \<Rightarrow> District list \<Rightarrow> District option" where
  "firstNamed name [] = None"
| "firstNamed name (d # ds) = (if dName d = name then Some d else firstNamed name ds)"









section \<open>District agent: rosters, the network and the remote calls\<close>

record Trial =
  trID :: int
  trAddress :: string

text \<open>
  A district agent is its name, its mirror of the court's district list and its roster of
  local trials. The world maps an address to the trial or to the district that listens
  there; \<open>None\<close> is an address from which no answer arrives before the deadline. Time is
  not modelled any further: an agent that is present answers in time.
\<close>

record DistrictAgent =
  nameDistrict :: string
  dlItems :: "District list"
  tlItems :: "Trial list"

record World =
  trialAt :: "string \<Rightarrow> TrialStore option"
  districtAt :: "string \<Rightarrow> DistrictAgent option"

text \<open>The lines the district writes to its log when it sends a request.\<close>

datatype event =
    SentQueryTrial string string
  | SentQueryDistrict string string
  | SentCreate string string string
  | SentMerge string string
  | SentWorkload string

definition emptyQuery :: ActionQuery where
  "emptyQuery = \<lparr>qPlaintiff = [], qDefendant = [], qCauseID = 0, qClaims = []\<rparr>"

definition emptyRequest :: TrialRequest where
  "emptyRequest =
     \<lparr>tType = [], tStage = [], tLawsuit = emptyQuery, tReason = [], tRelated = [],
      tLawsuitID = [], tNewClaims = [], tField = [], tValue = [], tTrialID = 0\<rparr>"

definition positive :: "TrialActionQueryResponse \<Rightarrow> bool" where
  "positive resp = (rSuccess resp \<and> rMatch resp \<noteq> [] \<and> rMatch resp \<noteq> ''none'')"

definition verifyTrialStage ::
  "World \<Rightarrow> string \<Rightarrow> string \<Rightarrow> ActionQuery \<Rightarrow> error + TrialActionQueryResponse" where
  "verifyTrialStage w trialAddr stage lawsuit =
     (case trialAt w trialAddr of
        None \<Rightarrow> Inl (Transport trialAddr)
      | Some ts \<Rightarrow>
          (case fst (handlePacket
                      (Msg (emptyRequest\<lparr>tType := ''lawsuit_query'', tStage := stage,
                                         tLawsuit := lawsuit\<rparr>)) ts) of
             Some (QueryReply resp) \<Rightarrow> Inr resp
           | _ \<Rightarrow> Inl (Transport trialAddr)))"

fun verifyLocalTrialsStage ::
  "World \<Rightarrow> Trial list \<Rightarrow> string \<Rightarrow> ActionQuery \<Rightarrow>
   TrialActionQueryResponse option \<times> event list" where
  "verifyLocalTrialsStage w [] stage lawsuit = (None, [])"
| "verifyLocalTrialsStage w (t # trials) stage lawsuit =
     (case verifyTrialStage w (trAddress t) stage lawsuit of
        Inl err \<Rightarrow>
          (let (r, ev) = verifyLocalTrialsStage w trials stage lawsuit
           in (r, SentQueryTrial stage (trAddress t) # ev))
      | Inr resp \<Rightarrow>
          if positive resp then
            (Some (if rTrialAddr resp = [] then resp\<lparr>rTrialAddr := trAddress t\<rparr> else resp),
             [SentQueryTrial stage (trAddress t)])
          else
            (let (r, ev) = verifyLocalTrialsStage w trials stage lawsuit
             in (r, SentQueryTrial stage (trAddress t) # ev)))"

record DistrictInfoResponse =
  iSuccess :: bool
  iMessage :: string
  iDistrictID :: int
  iDistrictName :: string
  iTrialID :: int
  iTrialAddr :: string

datatype district_reply =
    InfoReply DistrictInfoResponse
  | AggregateReply TrialActionQueryResponse

fun FindByID :: "Trial list \<Rightarrow> int \<Rightarrow> Trial option" where
  "FindByID [] n = None"
| "FindByID (t # ts) n = (if trID t = n then Some t else FindByID ts n)"

definition handleTrialInfo :: "DistrictAgent \<Rightarrow> TrialRequest \<Rightarrow> DistrictInfoResponse" where
  "handleTrialInfo ag req =
     (let districtID = (case firstNamed (nameDistrict ag) (dlItems ag) of
                          Some d \<Rightarrow> dID d | None \<Rightarrow> 0)
      in case FindByID (tlItems ag) (tTrialID req) of
           None \<Rightarrow>
             \<lparr>iSuccess = False,
              iMessage = ''Trial with ID '' @ Itoa (tTrialID req) @ '' not found in this district.'',
              iDistrictID = 0, iDistrictName = [], iTrialID = 0, iTrialAddr = []\<rparr>
         | Some t \<Rightarrow>
             \<lparr>iSuccess = True,
              iMessage = ''Information from the trial sucessfully obtained.'',
              iDistrictID = districtID, iDistrictName = nameDistrict ag,
              iTrialID = trID t, iTrialAddr = trAddress t\<rparr>)"

definition handleActionQueryDistrict ::
  "World \<Rightarrow> DistrictAgent \<Rightarrow> TrialRequest \<Rightarrow> TrialActionQueryResponse" where
  "handleActionQueryDistrict w ag req =
     (let empty = \<lparr>rSuccess = True, rStage = tStage req, rMatch = ''none'',
                   rMessage = ''No corresponding lawsuit was found in this district.'',
                   rLawsuitID = [], rDistrictID = 0, rDistrictName = [], rTrialID = 0,
                   rTrialAddr = [], rExistentClaims = [], rConnectedLawsuits = []\<rparr>
      in case fst (verifyLocalTrialsStage w (tlItems ag) (tStage req) (tLawsuit req)) of
           None \<Rightarrow> empty
         | Some respLocal \<Rightarrow>
             if \<not> rSuccess respLocal \<or> rMatch respLocal = [] \<or> rMatch respLocal = ''none''
             then empty
             else if rDistrictName respLocal = [] \<or> rDistrictID respLocal = 0 then
               (case firstNamed (nameDistrict ag) (dlItems ag) of
                  Some d \<Rightarrow> respLocal\<lparr>rDistrictID := dID d, rDistrictName := dName d\<rparr>
                | None \<Rightarrow> respLocal)
             else respLocal)"

text \<open>
  One turn of the loop of \<^verbatim>\<open>startTrialsServer\<close>: the reply written to the sender, if any,
  and the agent afterwards. An undecodable datagram and an unknown type tag are logged and
  the loop goes on.
\<close>

definition serveDatagram ::
  "World \<Rightarrow> DistrictAgent \<Rightarrow> datagram \<Rightarrow> district_reply option \<times> DistrictAgent" where
  "serveDatagram w ag data =
     (case data of
        Garbled \<Rightarrow> (None, ag)
      | BadFields ty \<Rightarrow> (None, ag)
      | Msg req \<Rightarrow>
          if tType req = ''trial_info'' then (Some (InfoReply (handleTrialInfo ag req)), ag)
          else if tType req = ''lawsuit_query'' then
            (Some (AggregateReply (handleActionQueryDistrict w ag req)), ag)
          else (None, ag))"

definition verifyDistrictStage ::
  "World \<Rightarrow> string \<Rightarrow> string \<Rightarrow> ActionQuery \<Rightarrow> error + TrialActionQueryResponse" where
  "verifyDistrictStage w districtAddr stage lawsuit =
     (case districtAt w districtAddr of
        None \<Rightarrow> Inl (Transport districtAddr)
      | Some peer \<Rightarrow>
          (case fst (serveDatagram w peer
                      (Msg (emptyRequest\<lparr>tType := ''lawsuit_query'', tStage := stage,
                                         tLawsuit := lawsuit\<rparr>))) of
             Some (AggregateReply resp) \<Rightarrow> Inr resp
           | _ \<Rightarrow> Inl (Transport districtAddr)))"

fun verifyOtherDistrictsStage ::
  "World \<Rightarrow> string \<Rightarrow> District list \<Rightarrow> string \<Rightarrow> ActionQuery \<Rightarrow>
   TrialActionQueryResponse option \<times> event list" where
  "verifyOtherDistrictsStage w nameDistrictLocal [] stage lawsuit = (None, [])"
| "verifyOtherDistrictsStage w nameDistrictLocal (d # districts) stage lawsuit =
     (if EqualFold (dName d) nameDistrictLocal then
        verifyOtherDistrictsStage w nameDistrictLocal districts stage lawsuit
      else
        (let districtAddr = TrimSpace (dAddress d)
         in if districtAddr = [] then
              verifyOtherDistrictsStage w nameDistrictLocal districts stage lawsuit
            else
              (case verifyDistrictStage w districtAddr stage lawsuit of
                 Inl err \<Rightarrow>
                   (let (r, ev) = verifyOtherDistrictsStage w nameDistrictLocal districts stage lawsuit
                    in (r, SentQueryDistrict stage districtAddr # ev))
               | Inr resp \<Rightarrow>
                   if positive resp then
                     (let resp1 = (if rDistrictID resp = 0 then resp\<lparr>rDistrictID := dID d\<rparr>
                                   else resp);
                          resp2 = (if rDistrictName resp1 = [] then
                                     resp1\<lparr>rDistrictName := dName d\<rparr>
                                   else resp1)
                      in (Some resp2, [SentQueryDistrict stage districtAddr]))
                   else
                     (let (r, ev) =
                            verifyOtherDistrictsStage w nameDistrictLocal districts stage lawsuit
                      in (r, SentQueryDistrict stage districtAddr # ev)))))"

definition putTrial :: "World \<Rightarrow> string \<Rightarrow> TrialStore \<Rightarrow> World" where
  "putTrial w addr ts = w\<lparr>trialAt := (trialAt w)(addr \<mapsto> ts)\<rparr>"

definition createLawsuitInTrialAddr ::
  "World \<Rightarrow> string \<Rightarrow> string \<Rightarrow> string \<Rightarrow> ActionQuery \<Rightarrow>
   (error + TrialCreateActionResponse) \<times> World" where
  "createLawsuitInTrialAddr w trialAddr reason related lawsuit =
     (case trialAt w trialAddr of
        None \<Rightarrow> (Inl (Transport trialAddr), w)
      | Some ts \<Rightarrow>
          (case handlePacket
                  (Msg (emptyRequest\<lparr>tType := ''lawsuit_create'', tReason := reason,
                                     tLawsuit := lawsuit, tRelated := related\<rparr>)) ts of
             (Some (CreateReply resp), ts1) \<Rightarrow> (Inr resp, putTrial w trialAddr ts1)
           | (_, ts1) \<Rightarrow> (Inl (Transport trialAddr), putTrial w trialAddr ts1)))"

definition sendMergeClaimsToTrialAddr ::
  "World \<Rightarrow> string \<Rightarrow> string \<Rightarrow> int list \<Rightarrow> (error + TrialMergeClaimsResponse) \<times> World" where
  "sendMergeClaimsToTrialAddr w trialAddr lawsuitID newClaims =
     (case trialAt w trialAddr of
        None \<Rightarrow> (Inl (Transport trialAddr), w)
      | Some ts \<Rightarrow>
          (case handlePacket
                  (Msg (emptyRequest\<lparr>tType := ''lawsuit_merge_claims'',
                                     tLawsuitID := lawsuitID, tNewClaims := newClaims\<rparr>)) ts of
             (Some (MergeReply resp), ts1) \<Rightarrow> (Inr resp, putTrial w trialAddr ts1)
           | (_, ts1) \<Rightarrow> (Inl (Transport trialAddr), putTrial w trialAddr ts1)))"

definition verifyWorkloadTrial :: "World \<Rightarrow> string \<Rightarrow> error + int" where
  "verifyWorkloadTrial w trialAddr =
     (case trialAt w trialAddr of
        None \<Rightarrow> Inl (Transport trialAddr)
      | Some ts \<Rightarrow>
          (case fst (handlePacket (Msg (emptyRequest\<lparr>tType := ''workload_info''\<rparr>)) ts) of
             Some (WorkloadReply resp) \<Rightarrow>
               if \<not> wSuccess resp then Inl (Transport (wMessage resp))
               else Inr (wActiveWorkload resp)
           | _ \<Rightarrow> Inl (Transport trialAddr)))"


section \<open>District agent: free distribution\<close>

text \<open>
  The loop of \<^verbatim>\<open>lawsuitFreeDistribution\<close>: \<open>best\<close> is \<open>None\<close> while \<^verbatim>\<open>found\<close> is false and
  otherwise holds \<^verbatim>\<open>bestTrial\<close> and \<^verbatim>\<open>bestWorkload\<close>.
\<close>

fun workloadLoop :: "World \<Rightarrow> Trial list \<Rightarrow> (Trial \<times> int) option \<Rightarrow> (Trial \<times> int) option" where
  "workloadLoop w [] best = best"
| "workloadLoop w (t # trials) best =
     (case verifyWorkloadTrial w (trAddress t) of
        Inl err \<Rightarrow> workloadLoop w trials best
      | Inr workload \<Rightarrow>
          workloadLoop w trials
            (case best of
               None \<Rightarrow> Some (t, workload)
             | Some (bestTrial, bestWorkload) \<Rightarrow>
                 if workload < bestWorkload then Some (t, workload)
                 else Some (bestTrial, bestWorkload)))"

text \<open>
  \<open>rnd\<close> is the number drawn by the random generator; \<^verbatim>\<open>rand.Intn(n)\<close> yields a value
  below \<open>n\<close>, here \<open>rnd mod n\<close>. The result names the trial chosen, the workload that chose
  it (\<open>None\<close> after the random fallback) and the trial's reply.
\<close>

definition lawsuitFreeDistribution ::
  "World \<Rightarrow> DistrictAgent \<Rightarrow> ActionQuery \<Rightarrow> nat \<Rightarrow>
   (error + Trial \<times> int option \<times> TrialCreateActionResponse) \<times> event list \<times> World" where
  "lawsuitFreeDistribution w ag lawsuit rnd =
     (let trials = tlItems ag
      in if length trials = 0 then (Inl NoLocalTrials, [], w)
         else
           (let best = workloadLoop w trials None;
                bestTrial = (case best of
                               Some (t, workload) \<Rightarrow> t
                             | None \<Rightarrow> trials ! (rnd mod length trials));
                ev = map (\<lambda>t. SentWorkload (trAddress t)) trials @
                     [SentCreate (trAddress bestTrial) ''free'' []]
            in case createLawsuitInTrialAddr w (trAddress bestTrial) ''free'' [] lawsuit of
                 (Inl err, w1) \<Rightarrow> (Inl err, ev, w1)
               | (Inr createResp, w1) \<Rightarrow>
                   if \<not> cSuccess createResp then (Inl (RefusedFree (cMessage createResp)), ev, w1)
                   else (Inr (bestTrial, map_option snd best, createResp), ev, w1)))"


section \<open>District agent: filing a new lawsuit\<close>

text \<open>
  The branch of the district's menu that files a lawsuit, from the point where the
  candidate has been read and parsed. What the program prints is summarised by the
  outcome; the events are its log of requests and the world carries what the trials did.
\<close>

datatype outcome =
    ResJudicata TrialActionQueryResponse
  | LisPendens TrialActionQueryResponse
  | RepeatedRequest TrialActionQueryResponse "error + TrialCreateActionResponse"
  | JoinderContained TrialActionQueryResponse
  | JoinderContinent TrialActionQueryResponse "error + TrialMergeClaimsResponse"
  | ConnectionFound TrialActionQueryResponse "error + TrialCreateActionResponse"
  | FreeDistribution "error + Trial \<times> int option \<times> TrialCreateActionResponse"

definition needOthers :: "TrialActionQueryResponse option \<Rightarrow> bool" where
  "needOthers r =
     (case r of
        None \<Rightarrow> True
      | Some resp \<Rightarrow> \<not> rSuccess resp \<or> rMatch resp = [] \<or> rMatch resp = ''none'')"

definition stageLookup ::
  "World \<Rightarrow> DistrictAgent \<Rightarrow> string \<Rightarrow> ActionQuery \<Rightarrow>
   TrialActionQueryResponse option \<times> event list" where
  "stageLookup w ag stage c =
     (let (r, ev) = verifyLocalTrialsStage w (tlItems ag) stage c
      in if needOthers r then
           (let (r2, ev2) = verifyOtherDistrictsStage w (nameDistrict ag) (dlItems ag) stage c
            in (r2, ev @ ev2))
         else (r, ev))"

definition fileFree ::
  "World \<Rightarrow> DistrictAgent \<Rightarrow> ActionQuery \<Rightarrow> nat \<Rightarrow> event list \<Rightarrow>
   outcome \<times> event list \<times> World" where
  "fileFree w ag c rnd ev =
     (let (res, ev6, w1) = lawsuitFreeDistribution w ag c rnd
      in (FreeDistribution res, ev @ ev6, w1))"

definition createRelated ::
  "World \<Rightarrow> string \<Rightarrow> TrialActionQueryResponse \<Rightarrow> ActionQuery \<Rightarrow>
   (error + TrialCreateActionResponse) \<times> event list \<times> World" where
  "createRelated w reason resp c =
     (let (createResp, w1) =
            createLawsuitInTrialAddr w (rTrialAddr resp) reason (rLawsuitID resp) c
      in (createResp, [SentCreate (rTrialAddr resp) reason (rLawsuitID resp)], w1))"

definition fileConnection ::
  "World \<Rightarrow> DistrictAgent \<Rightarrow> ActionQuery \<Rightarrow> nat \<Rightarrow> event list \<Rightarrow>
   outcome \<times> event list \<times> World" where
  "fileConnection w ag c rnd ev0 =
     (let (respConx, ev5) = stageLookup w ag ''connection'' c;
          ev = ev0 @ ev5
      in case respConx of
           None \<Rightarrow> fileFree w ag c rnd ev
         | Some resp \<Rightarrow>
             if rSuccess resp \<and> rMatch resp = ''connection'' then
               (let (createResp, evc, w1) = createRelated w ''connection'' resp c
                in (ConnectionFound resp createResp, ev @ evc, w1))
             else fileFree w ag c rnd ev)"

definition fileJoinder ::
  "World \<Rightarrow> DistrictAgent \<Rightarrow> ActionQuery \<Rightarrow> nat \<Rightarrow> event list \<Rightarrow>
   outcome \<times> event list \<times> World" where
  "fileJoinder w ag c rnd ev0 =
     (let (respCont, ev4) = stageLookup w ag ''joinder'' c;
          ev = ev0 @ ev4
      in case respCont of
           None \<Rightarrow> fileConnection w ag c rnd ev
         | Some resp \<Rightarrow>
             if rSuccess resp \<and>
                (rMatch resp = ''joinder_contained'' \<or> rMatch resp = ''joinder_continent'')
             then
               (if rMatch resp = ''joinder_contained'' then (JoinderContained resp, ev, w)
                else
                  (let (mergeResp, w1) =
                         sendMergeClaimsToTrialAddr w (rTrialAddr resp) (rLawsuitID resp) (qClaims c)
                   in (JoinderContinent resp mergeResp,
                       ev @ [SentMerge (rTrialAddr resp) (rLawsuitID resp)], w1)))
             else fileConnection w ag c rnd ev)"

definition fileRepeatedRequest ::
  "World \<Rightarrow> DistrictAgent \<Rightarrow> ActionQuery \<Rightarrow> nat \<Rightarrow> event list \<Rightarrow>
   outcome \<times> event list \<times> World" where
  "fileRepeatedRequest w ag c rnd ev0 =
     (let (respRR, ev3) = stageLookup w ag ''repeated_request'' c;
          ev = ev0 @ ev3
      in case respRR of
           None \<Rightarrow> fileJoinder w ag c rnd ev
         | Some resp \<Rightarrow>
             if rSuccess resp \<and> rMatch resp = ''repeated_request'' then
               (let (createResp, evc, w1) = createRelated w ''repeated_request'' resp c
                in (RepeatedRequest resp createResp, ev @ evc, w1))
             else fileJoinder w ag c rnd ev)"

definition fileLisPendens ::
  "World \<Rightarrow> DistrictAgent \<Rightarrow> ActionQuery \<Rightarrow> nat \<Rightarrow> event list \<Rightarrow>
   outcome \<times> event list \<times> World" where
  "fileLisPendens w ag c rnd ev0 =
     (let (respLit, ev2) = stageLookup w ag ''lis_pendens'' c;
          ev = ev0 @ ev2
      in case respLit of
           None \<Rightarrow> fileRepeatedRequest w ag c rnd ev
         | Some resp \<Rightarrow>
             if rSuccess resp \<and> rMatch resp = ''lis_pendens'' then (LisPendens resp, ev, w)
             else fileRepeatedRequest w ag c rnd ev)"

text \<open>
  The first stage tests the local answer once more before it turns to the other
  districts; the four later stages do not.
\<close>

definition fileLawsuit ::
  "World \<Rightarrow> DistrictAgent \<Rightarrow> ActionQuery \<Rightarrow> nat \<Rightarrow> outcome \<times> event list \<times> World" where
  "fileLawsuit w ag c rnd =
     (let (respRJ, ev1) = verifyLocalTrialsStage w (tlItems ag) ''res_judicata'' c
      in if (case respRJ of None \<Rightarrow> False | Some resp \<Rightarrow> rMatch resp = ''res_judicata'') then
           (case respRJ of
              Some resp \<Rightarrow> (ResJudicata resp, ev1, w)
            | None \<Rightarrow> fileLisPendens w ag c rnd ev1)
         else
           (let (respRJ2, ev) =
                  (if needOthers respRJ then
                     (let (r2, ev2) =
                            verifyOtherDistrictsStage w (nameDistrict ag) (dlItems ag)
                              ''res_judicata'' c
                      in (r2, ev1 @ ev2))
                   else (respRJ, ev1))
            in case respRJ2 of
                 None \<Rightarrow> fileLisPendens w ag c rnd ev
               | Some resp \<Rightarrow>
                   if rSuccess resp \<and> rMatch resp = ''res_judicata'' then (ResJudicata resp, ev, w)
                   else fileLisPendens w ag c rnd ev))"


section \<open>The admissibility pipeline as the specification words it\<close>

text \<open>
  The definitions of this section follow the specification, not the program: a list of
  stages run in order; each stage asks the local trials and then the peer districts and
  adopts the first positive answer; an adopted answer is dispatched and ends the run. The
  peers to ask are a parameter, so that the two readings of ``every peer district'' can be
  compared with the program.
\<close>

definition spec_stages :: "string list" where
  "spec_stages = [''res_judicata'', ''lis_pendens'', ''repeated_request'', ''joinder'', ''connection'']"

definition spec_answer :: "error + TrialActionQueryResponse \<Rightarrow> TrialActionQueryResponse option" where
  "spec_answer x = (case x of Inl err \<Rightarrow> None | Inr resp \<Rightarrow> if positive resp then Some resp else None)"

text \<open>
  An adopted answer names the trial and the district it came from: where the answer leaves
  the trial's address, the district's identifier or the district's name empty, the roster
  entry that was asked fills it in.
\<close>

definition fillTrialAddr :: "Trial \<Rightarrow> TrialActionQueryResponse \<Rightarrow> TrialActionQueryResponse" where
  "fillTrialAddr t resp = (if rTrialAddr resp = [] then resp\<lparr>rTrialAddr := trAddress t\<rparr> else resp)"

definition fillDistrict :: "District \<Rightarrow> TrialActionQueryResponse \<Rightarrow> TrialActionQueryResponse" where
  "fillDistrict d resp =
     resp\<lparr>rDistrictID := (if rDistrictID resp = 0 then dID d else rDistrictID resp),
          rDistrictName := (if rDistrictName resp = [] then dName d else rDistrictName resp)\<rparr>"

definition spec_localAnswers ::
  "World \<Rightarrow> Trial list \<Rightarrow> string \<Rightarrow> ActionQuery \<Rightarrow>
   (event \<times> TrialActionQueryResponse option) list" where
  "spec_localAnswers w trials stage c =
     map (\<lambda>t. (SentQueryTrial stage (trAddress t),
                map_option (fillTrialAddr t) (spec_answer (verifyTrialStage w (trAddress t) stage c))))
       trials"

definition spec_peerAnswers ::
  "World \<Rightarrow> District list \<Rightarrow> string \<Rightarrow> ActionQuery \<Rightarrow>
   (event \<times> TrialActionQueryResponse option) list" where
  "spec_peerAnswers w peers stage c =
     map (\<lambda>d. (SentQueryDistrict stage (TrimSpace (dAddress d)),
                map_option (fillDistrict d)
                  (spec_answer (verifyDistrictStage w (TrimSpace (dAddress d)) stage c))))
       peers"

text \<open>Ask in order up to the first positive answer; the log holds exactly the requests sent.\<close>

definition spec_firstPositive ::
  "(event \<times> TrialActionQueryResponse option) list \<Rightarrow>
   TrialActionQueryResponse option \<times> event list" where
  "spec_firstPositive xs =
     (case dropWhile (\<lambda>x. snd x = None) xs of
        [] \<Rightarrow> (None, map fst xs)
      | x # rest \<Rightarrow> (snd x, map fst (takeWhile (\<lambda>x. snd x = None) xs) @ [fst x]))"

definition spec_peers_by_name :: "DistrictAgent \<Rightarrow> District list" where
  "spec_peers_by_name ag = filter (\<lambda>d. \<not> EqualFold (dName d) (nameDistrict ag)) (dlItems ag)"

definition spec_peers_with_address :: "DistrictAgent \<Rightarrow> District list" where
  "spec_peers_with_address ag =
     filter (\<lambda>d. \<not> EqualFold (dName d) (nameDistrict ag) \<and> TrimSpace (dAddress d) \<noteq> [])
       (dlItems ag)"

definition spec_stage ::
  "District list \<Rightarrow> World \<Rightarrow> DistrictAgent \<Rightarrow> string \<Rightarrow> ActionQuery \<Rightarrow>
   TrialActionQueryResponse option \<times> event list" where
  "spec_stage peers w ag stage c =
     (case spec_firstPositive (spec_localAnswers w (tlItems ag) stage c) of
        (Some resp, ev) \<Rightarrow> (Some resp, ev)
      | (None, ev) \<Rightarrow>
          (let (r2, ev2) = spec_firstPositive (spec_peerAnswers w peers stage c)
           in (r2, ev @ ev2)))"

definition spec_dispatch ::
  "World \<Rightarrow> ActionQuery \<Rightarrow> string \<Rightarrow> TrialActionQueryResponse \<Rightarrow>
   outcome \<times> event list \<times> World" where
  "spec_dispatch w c stage resp =
     (if stage = ''res_judicata'' then (ResJudicata resp, [], w)
      else if stage = ''lis_pendens'' then (LisPendens resp, [], w)
      else if stage = ''repeated_request'' then
        (let (createResp, evc, w1) = createRelated w ''repeated_request'' resp c
         in (RepeatedRequest resp createResp, evc, w1))
      else if stage = ''joinder'' then
        (if rMatch resp = ''joinder_contained'' then (JoinderContained resp, [], w)
         else
           (let (mergeResp, w1) =
                  sendMergeClaimsToTrialAddr w (rTrialAddr resp) (rLawsuitID resp) (qClaims c)
            in (JoinderContinent resp mergeResp,
                [SentMerge (rTrialAddr resp) (rLawsuitID resp)], w1)))
      else
        (let (createResp, evc, w1) = createRelated w ''connection'' resp c
         in (ConnectionFound resp createResp, evc, w1)))"

fun spec_pipeline ::
  "District list \<Rightarrow> World \<Rightarrow> DistrictAgent \<Rightarrow> ActionQuery \<Rightarrow> nat \<Rightarrow> string list \<Rightarrow>
   outcome \<times> event list \<times> World" where
  "spec_pipeline peers w ag c rnd [] = fileFree w ag c rnd []"
| "spec_pipeline peers w ag c rnd (stage # later) =
     (case spec_stage peers w ag stage c of
        (Some resp, ev) \<Rightarrow>
          (let (out, evd, w1) = spec_dispatch w c stage resp in (out, ev @ evd, w1))
      | (None, ev) \<Rightarrow>
          (let (out, evl, w1) = spec_pipeline peers w ag c rnd later in (out, ev @ evl, w1)))"


section \<open>The stage predicates as the specification words them\<close>






section \<open>The scenarios of the specification, as data\<close>

definition ex_lawsuit :: "string \<Rightarrow> string \<Rightarrow> string \<Rightarrow> int \<Rightarrow> int list \<Rightarrow> Lawsuit" where
  "ex_lawsuit lid p d cause claims =
     \<lparr>ID = lid, Plaintiff = p, Defendant = d, CauseAction = cause, Claims = claims,
      Connected = [], ClaimLegacy = 0\<rparr>"

definition ex_query :: "string \<Rightarrow> string \<Rightarrow> int \<Rightarrow> int list \<Rightarrow> ActionQuery" where
  "ex_query p d cause claims =
     \<lparr>qPlaintiff = p, qDefendant = d, qCauseID = cause, qClaims = claims\<rparr>"

definition ex_store ::
  "int \<Rightarrow> string \<Rightarrow> int \<Rightarrow> string \<Rightarrow> int \<Rightarrow> Lawsuit list \<Rightarrow> Lawsuit list \<Rightarrow> Lawsuit list \<Rightarrow>
   TrialStore" where
  "ex_store d dname t addr seq act withMerit withoutMerit =
     \<lparr>state = \<lparr>DistrictID = d, DistrictName = dname, TrialID = t, TrialAddr = addr,
               NextSeq = seq, ActivesLawsuits = act, LawsuitsDisWithMerit = withMerit,
               LawsuitsDisWithoutMerit = withoutMerit\<rparr>,
      stateFile = None, diskFault = None\<rparr>"

text \<open>Scenario 4: Beta/T1 holds the active lawsuit 2.1.1; Eve files on the same cause.\<close>

definition ex_carlos :: Lawsuit where
  "ex_carlos = ex_lawsuit ''2.1.1'' ''Carlos'' ''Dora'' 9 [40]"

definition ex_betaT1 :: TrialStore where
  "ex_betaT1 = ex_store 2 ''Beta'' 1 '':9201'' 2 [ex_carlos] [] []"

definition ex_eve :: ActionQuery where
  "ex_eve = ex_query ''Eve'' ''Frank'' 9 [41]"

text \<open>Scenario 3: Alpha/T1 holds the active lawsuit 1.1.5 with the single claim 10.\<close>

definition ex_115 :: Lawsuit where
  "ex_115 = ex_lawsuit ''1.1.5'' ''Ana'' ''Bia'' 7 [10]"

definition ex_alphaT1 :: TrialStore where
  "ex_alphaT1 = ex_store 1 ''Alpha'' 1 '':9101'' 6 [ex_115] [] []"

definition ex_ana_wide :: ActionQuery where
  "ex_ana_wide = ex_query ''Ana'' ''Bia'' 7 [10, 20, 30]"

text \<open>The same claim typed twice, as the district's claim parser accepts it.\<close>

definition ex_ana_twice :: ActionQuery where
  "ex_ana_twice = ex_query ''ana'' ''BIA'' 7 [10, 10]"

text \<open>The store in which the write of the state file fails.\<close>

definition ex_faulty :: TrialStore where
  "ex_faulty = ex_alphaT1\<lparr>diskFault := Some ''no space left on device''\<rparr>"

definition ex_ana :: ActionQuery where
  "ex_ana = ex_query ''Ana'' ''Bia'' 7 [10, 20]"

definition ex_create :: TrialRequest where
  "ex_create = emptyRequest\<lparr>tType := ''lawsuit_create'', tReason := ''free'', tLawsuit := ex_ana\<rparr>"

definition ex_ping :: TrialRequest where
  "ex_ping = emptyRequest\<lparr>tType := ''ping''\<rparr>"

definition ex_registry :: DistrictList where
  "ex_registry =
     \<lparr>Items = [\<lparr>dID = 1, dName = ''Alpha'', dAddress = ''127.0.0.1:9100'', dTrials = 2\<rparr>],
      listFile = None, listFault = None\<rparr>"

definition ex_agent :: DistrictAgent where
  "ex_agent =
     \<lparr>nameDistrict = ''Alpha'',
      dlItems = [\<lparr>dID = 1, dName = ''Alpha'', dAddress = '':9100'', dTrials = 2\<rparr>,
                 \<lparr>dID = 2, dName = ''Beta'', dAddress = '':9200'', dTrials = 1\<rparr>],
      tlItems = [\<lparr>trID = 1, trAddress = '':9101''\<rparr>, \<lparr>trID = 2, trAddress = '':9102''\<rparr>]\<rparr>"

definition ex_nobody :: World where
  "ex_nobody = \<lparr>trialAt = (\<lambda>a. None), districtAt = (\<lambda>a. None)\<rparr>"


section \<open>Auxiliary notions used to state the properties\<close>

text \<open>The store after the claims \<open>X\<close> have been merged into the active lawsuit at index \<open>i\<close>.\<close>

definition mergedStore :: "TrialStore \<Rightarrow> nat \<Rightarrow> int list \<Rightarrow> TrialStore" where
  "mergedStore ts i X =
     (let acts = ActivesLawsuits (state ts)
      in ts\<lparr>state := (state ts)
              \<lparr>ActivesLawsuits := acts[i := (acts ! i)\<lparr>Claims := mergeLoop (Claims (acts ! i)) X\<rparr>]\<rparr>\<rparr>)"

text \<open>The type tag the receiver reads from a datagram, if it can read one.\<close>

definition datagramType :: "datagram \<Rightarrow> string option" where
  "datagramType data =
     (case data of Garbled \<Rightarrow> None | BadFields ty \<Rightarrow> Some ty | Msg req \<Rightarrow> Some (tType req))"







section \<open>Free distribution as the specification words it\<close>








text \<open>
  Scenario 5: Alpha/T1 holds five active lawsuits and Alpha/T2 two; the candidate is
  related to none of them. District Beta does not answer.
\<close>

definition ex_T1_five :: TrialStore where
  "ex_T1_five =
     ex_store 1 ''Alpha'' 1 '':9101'' 6
       (map (\<lambda>n. ex_lawsuit (sprintfID 1 1 n) ''Gil'' ''Hal'' 3 [n]) [1, 2, 3, 4, 5]) [] []"

definition ex_T2_two :: TrialStore where
  "ex_T2_two =
     ex_store 1 ''Alpha'' 2 '':9102'' 3
       (map (\<lambda>n. ex_lawsuit (sprintfID 1 2 n) ''Ivo'' ''Jan'' 4 [n]) [1, 2]) [] []"

definition ex_world5 :: World where
  "ex_world5 =
     \<lparr>trialAt = [ '':9101'' \<mapsto> ex_T1_five, '':9102'' \<mapsto> ex_T2_two ],
      districtAt = (\<lambda>a. None)\<rparr>"

definition ex_zoe :: ActionQuery where
  "ex_zoe = ex_query ''Zoe'' ''Yan'' 8 [77]"

text \<open>
  The verdicts a stage can adopt, and the admissibility stages that come before the free
  distribution.
\<close>

definition stageVerdict :: "string \<Rightarrow> string \<Rightarrow> bool" where
  "stageVerdict stage m =
     (if stage = ''joinder'' then m = ''joinder_contained'' \<or> m = ''joinder_continent''
      else m = stage)"

definition prependEvents ::
  "event list \<Rightarrow> outcome \<times> event list \<times> World \<Rightarrow> outcome \<times> event list \<times> World" where
  "prependEvents ev0 r = (case r of (out, ev, w1) \<Rightarrow> (out, ev0 @ ev, w1))"

text \<open>
  A district of the mirror with a blank address: Gamma is a peer by its name, and there
  is nowhere to send a query for it.
\<close>

definition ex_agent_blank :: DistrictAgent where
  "ex_agent_blank =
     \<lparr>nameDistrict = ''Alpha'',
      dlItems = [\<lparr>dID = 1, dName = ''ALPHA'', dAddress = '':9100'', dTrials = 0\<rparr>,
                 \<lparr>dID = 3, dName = ''Gamma'', dAddress = '' '', dTrials = 1\<rparr>],
      tlItems = []\<rparr>"

text \<open>
  The boundary case of the specification: Alpha/T1 holds the lawsuit 1.1.1, dismissed
  with a judgment on the merits, and an identical active lawsuit 1.1.2.
\<close>

definition ex_T1_judged :: TrialStore where
  "ex_T1_judged =
     ex_store 1 ''Alpha'' 1 '':9101'' 3
       [ex_lawsuit ''1.1.2'' ''Ana'' ''Bia'' 7 [20, 10]]
       [ex_lawsuit ''1.1.1'' ''Ana'' ''Bia'' 7 [10, 20]] []"

definition ex_world_judged :: World where
  "ex_world_judged =
     \<lparr>trialAt = [ '':9101'' \<mapsto> ex_T1_judged, '':9102'' \<mapsto> ex_T2_two ],
      districtAt = (\<lambda>a. None)\<rparr>"


section \<open>Claim lists: what the three comparisons compute\<close>














lemmas ex_defs =
  ex_lawsuit_def ex_query_def ex_store_def ex_carlos_def ex_betaT1_def ex_eve_def
  ex_115_def ex_alphaT1_def ex_ana_wide_def ex_ana_twice_def ex_faulty_def ex_ana_def
  ex_create_def ex_ping_def ex_registry_def ex_agent_def ex_nobody_def emptyRequest_def
  emptyQuery_def ex_T1_five_def ex_T2_two_def ex_world5_def ex_zoe_def ex_agent_blank_def



section \<open>The joinder stage (C2)\<close>





section \<open>The connection stage (C3)\<close>




section \<open>Merging claims (C5)\<close>

lemma set_addUnique: "set (addUnique cl p) = insert p (set cl)"
  by (auto simp: addUnique_def)

lemma set_mergeLoop: "set (mergeLoop cl X) = set cl \<union> set X"
  by (induction X arbitrary: cl) (auto simp: set_addUnique)

lemma mergeLoop_absorbed: "set X \<subseteq> set cl \<Longrightarrow> mergeLoop cl X = cl"
  by (induction X arbitrary: cl) (auto simp: addUnique_def)

lemma mergeLoop_twice: "mergeLoop (mergeLoop cl X) X = mergeLoop cl X"
  by (rule mergeLoop_absorbed) (simp add: set_mergeLoop)

lemma indexOfID_Some: "indexOfID lid as = Some i \<Longrightarrow> i < length as \<and> ID (as ! i) = lid"
  by (induction as arbitrary: i) (auto split: if_splits)


lemma addClaimsLoop_None:
  "indexOfID lid as = None \<Longrightarrow> addClaimsLoop lid X as = (as, False)"
  by (induction as) (auto split: if_splits)

lemma addClaimsLoop_Some:
  "indexOfID lid as = Some i \<Longrightarrow>
   addClaimsLoop lid X as = (as[i := (as ! i)\<lparr>Claims := mergeLoop (Claims (as ! i)) X\<rparr>], True)"
  by (induction as arbitrary: i) (auto split: if_splits)

lemma indexOfID_update_claims:
  "indexOfID lid (as[i := (as ! i)\<lparr>Claims := c\<rparr>]) = indexOfID lid as"
proof (induction as arbitrary: i)
  case Nil
  then show ?case by simp
next
  case (Cons a as)
  then show ?case by (cases i) auto
qed

lemma AddClaims_found:
  assumes "indexOfID lid (ActivesLawsuits (state ts)) = Some i"
  shows "AddClaims ts lid X = saveLocked (mergedStore ts i X)"
  using assms by (simp add: AddClaims_def addClaimsLoop_Some mergedStore_def Let_def)

lemma AddClaims_missing:
  assumes "indexOfID lid (ActivesLawsuits (state ts)) = None"
  shows "AddClaims ts lid X = (Some (NotFoundMerge lid), ts)"
  using assms by (simp add: AddClaims_def addClaimsLoop_None)

lemma mergedStore_again:
  assumes "i < length (ActivesLawsuits (state ts))"
  shows "mergedStore (snd (saveLocked (mergedStore ts i X))) i X = snd (saveLocked (mergedStore ts i X))"
        "indexOfID lid (ActivesLawsuits (state (snd (saveLocked (mergedStore ts i X))))) =
         indexOfID lid (ActivesLawsuits (state ts))"
  using assms
  by (auto simp: saveLocked_def mergedStore_def Let_def mergeLoop_twice indexOfID_update_claims
           split: option.splits)

lemma saveLocked_again: "snd (saveLocked (snd (saveLocked ts))) = snd (saveLocked ts)"
  by (auto simp: saveLocked_def split: option.splits)


text \<open>
  C5. \<open>AddClaims\<close> looks for the identifier in the active list only. When it is not there
  the call fails with the not-found error and the store, dismissed lists included, is
  what it was. When it is there, at index \<open>i\<close>, the claims of that lawsuit become a list
  whose elements are the old claims together with \<open>X\<close>, nothing else in the state changes,
  the call reports only what the write of the state file reports, and the same call on
  the resulting store returns the same result and leaves that store as it is.
\<close>

theorem AddClaims_union_idempotent:
  "(case indexOfID lid (ActivesLawsuits (state ts)) of
      None \<Rightarrow> AddClaims ts lid X = (Some (NotFoundMerge lid), ts)
    | Some i \<Rightarrow>
        (let acts = ActivesLawsuits (state ts);
             merged = mergeLoop (Claims (acts ! i)) X;
             ts1 = snd (AddClaims ts lid X)
         in i < length acts \<and> ID (acts ! i) = lid \<and>
            set merged = set (Claims (acts ! i)) \<union> set X \<and>
            state ts1 = (state ts)\<lparr>ActivesLawsuits := acts[i := (acts ! i)\<lparr>Claims := merged\<rparr>]\<rparr> \<and>
            fst (AddClaims ts lid X) = map_option IOError (diskFault ts) \<and>
            AddClaims ts1 lid X = (fst (AddClaims ts lid X), ts1)))"
proof (cases "indexOfID lid (ActivesLawsuits (state ts))")
  case None
  then show ?thesis by (simp add: AddClaims_missing)
next
  case (Some i)
  note f = AddClaims_found[OF Some, of X]
  have i: "i < length (ActivesLawsuits (state ts))" "ID (ActivesLawsuits (state ts) ! i) = lid"
    using indexOfID_Some[OF Some] by simp_all
  let ?ts1 = "snd (saveLocked (mergedStore ts i X))"
  have idx1: "indexOfID lid (ActivesLawsuits (state ?ts1)) = Some i"
    using mergedStore_again(2)[OF i(1)] Some by simp
  have again: "AddClaims ?ts1 lid X = saveLocked ?ts1"
    using AddClaims_found[OF idx1, of X] mergedStore_again(1)[OF i(1)] by simp
  have st: "state ?ts1 = state (mergedStore ts i X)" "diskFault ?ts1 = diskFault ts"
    by (auto simp: saveLocked_def mergedStore_def Let_def split: option.splits)
  have fst1: "fst (saveLocked (mergedStore ts i X)) = map_option IOError (diskFault ts)"
    by (auto simp: saveLocked_def mergedStore_def Let_def split: option.splits)
  have fst2: "fst (saveLocked ?ts1) = map_option IOError (diskFault ts)"
    by (auto simp: saveLocked_def mergedStore_def Let_def split: option.splits)
  have sv: "saveLocked ?ts1 = (fst (saveLocked (mergedStore ts i X)), ?ts1)"
    using saveLocked_again[of "mergedStore ts i X"] fst1 fst2
    by (metis prod.collapse)
  have ms: "state (mergedStore ts i X) =
      (state ts)\<lparr>ActivesLawsuits := (ActivesLawsuits (state ts))
         [i := (ActivesLawsuits (state ts) ! i)
            \<lparr>Claims := mergeLoop (Claims (ActivesLawsuits (state ts) ! i)) X\<rparr>]\<rparr>"
    by (simp add: mergedStore_def Let_def)
  show ?thesis
    unfolding Some option.case Let_def f
  proof (intro conjI)
    show "i < length (ActivesLawsuits (state ts))" by (rule i(1))
    show "ID (ActivesLawsuits (state ts) ! i) = lid" by (rule i(2))
    show "set (mergeLoop (Claims (ActivesLawsuits (state ts) ! i)) X) =
          set (Claims (ActivesLawsuits (state ts) ! i)) \<union> set X"
      by (rule set_mergeLoop)
    show "state ?ts1 =
      (state ts)\<lparr>ActivesLawsuits := (ActivesLawsuits (state ts))
         [i := (ActivesLawsuits (state ts) ! i)
            \<lparr>Claims := mergeLoop (Claims (ActivesLawsuits (state ts) ! i)) X\<rparr>]\<rparr>"
      using st(1) ms by simp
    show "fst (saveLocked (mergedStore ts i X)) = map_option IOError (diskFault ts)"
      by (rule fst1)
    show "AddClaims ?ts1 lid X = (fst (saveLocked (mergedStore ts i X)), ?ts1)"
      using again sv by simp
  qed
qed

theorem AddClaims_union_idempotent_witness:
  "state (snd (AddClaims ex_alphaT1 ''1.1.5'' [10, 20, 30])) =
     (state ex_alphaT1)\<lparr>ActivesLawsuits := [ex_lawsuit ''1.1.5'' ''Ana'' ''Bia'' 7 [10, 20, 30]]\<rparr> \<and>
   fst (AddClaims ex_alphaT1 ''1.1.5'' [10, 20, 30]) = None \<and>
   AddClaims ex_alphaT1 ''1.1.9'' [10, 20, 30] = (Some (NotFoundMerge ''1.1.9''), ex_alphaT1)"
  using AddClaims_union_idempotent[where lid = "''1.1.5''" and ts = ex_alphaT1 and X = "[10, 20, 30]"]
        AddClaims_union_idempotent[where lid = "''1.1.9''" and ts = ex_alphaT1 and X = "[10, 20, 30]"]
  by (simp add: ex_defs Let_def addUnique_def)


section \<open>The read-only endpoints (C10)\<close>

lemma dispatch_readonly:
  "ty \<in> {''lawsuit_query'', ''search_lawsuit'', ''workload_info''} \<Longrightarrow>
   snd (dispatch ty body ts) = ts"
  by (auto simp: dispatch_def split: option.splits)


text \<open>
  C10. A datagram whose type tag is \<open>lawsuit_query\<close>, \<open>search_lawsuit\<close> or \<open>workload_info\<close>
  leaves the store as it was, whatever else it carries: the three lists, \<open>NextSeq\<close>, the
  identity fields and the state file.
\<close>

theorem handlePacket_read_only:
  "datagramType data \<in> Some ` {''lawsuit_query'', ''search_lawsuit'', ''workload_info''} \<Longrightarrow>
   snd (handlePacket data ts) = ts"
  by (cases data) (auto simp: handlePacket_def datagramType_def dispatch_readonly)


theorem handlePacket_read_only_witness:
  "snd (handlePacket (Msg (emptyRequest\<lparr>tType := ''lawsuit_query'', tStage := ''connection'',
                                        tLawsuit := ex_eve\<rparr>)) ex_betaT1) = ex_betaT1 \<and>
   fst (handlePacket (Msg (emptyRequest\<lparr>tType := ''workload_info''\<rparr>)) ex_betaT1) =
     Some (WorkloadReply (handleWorkloadInfo ex_betaT1))"
  using handlePacket_read_only[where data = "Msg (emptyRequest\<lparr>tType := ''lawsuit_query'',
          tStage := ''connection'', tLawsuit := ex_eve\<rparr>)" and ts = ex_betaT1]
  by (simp add: datagramType_def handlePacket_def dispatch_def emptyRequest_def)


section \<open>A state file that cannot be written (C6)\<close>


lemma saveLocked_fault:
  "diskFault ts = Some txt \<Longrightarrow> saveLocked ts = (Some (IOError txt), ts)"
  by (simp add: saveLocked_def)

lemma saveLocked_ok:
  "diskFault ts = None \<Longrightarrow> saveLocked ts = (None, ts\<lparr>stateFile := Some (state ts)\<rparr>)"
  by (simp add: saveLocked_def)










section \<open>Datagrams of an unknown type (C7)\<close>












section \<open>Registering a district at the court (C9)\<close>


lemma firstNamed_None: "(firstNamed name ds = None) = (name \<notin> dName ` set ds)"
  by (induction ds) auto

lemma firstNamed_Some: "firstNamed name ds = Some d \<Longrightarrow> d \<in> set ds \<and> dName d = name"
  by (induction ds) (auto split: if_splits)









section \<open>Free distribution (C4)\<close>
















section \<open>The admissibility pipeline (C1)\<close>

subsection \<open>The two loops ask in roster order up to the first positive answer\<close>

lemma spec_firstPositive_Nil: "spec_firstPositive [] = (None, [])"
  by (simp add: spec_firstPositive_def)

lemma spec_firstPositive_hit: "spec_firstPositive ((e, Some r) # xs) = (Some r, [e])"
  by (simp add: spec_firstPositive_def)

lemma spec_firstPositive_miss:
  "spec_firstPositive ((e, None) # xs) =
     (fst (spec_firstPositive xs), e # snd (spec_firstPositive xs))"
proof -
  have d: "dropWhile (\<lambda>x. snd x = None) ((e, None) # xs) = dropWhile (\<lambda>x. snd x = None) xs"
    by simp
  have t: "takeWhile (\<lambda>x. snd x = None) ((e, None) # xs) =
           (e, None) # takeWhile (\<lambda>x. snd x = None) xs"
    by simp
  show ?thesis
  proof (cases "dropWhile (\<lambda>x. snd x = None) xs")
    case Nil
    show ?thesis unfolding spec_firstPositive_def d t Nil by simp
  next
    case (Cons x rest)
    show ?thesis unfolding spec_firstPositive_def d t Cons by simp
  qed
qed

lemma verifyLocalTrialsStage_spec:
  "verifyLocalTrialsStage w trials stage c = spec_firstPositive (spec_localAnswers w trials stage c)"
proof (induction trials)
  case Nil
  then show ?case by (simp add: spec_localAnswers_def spec_firstPositive_Nil)
next
  case (Cons t trials)
  have IH: "verifyLocalTrialsStage w trials stage c =
            spec_firstPositive (spec_localAnswers w trials stage c)" by (rule Cons)
  have unf: "spec_localAnswers w (t # trials) stage c =
      (SentQueryTrial stage (trAddress t),
       map_option (fillTrialAddr t) (spec_answer (verifyTrialStage w (trAddress t) stage c)))
      # spec_localAnswers w trials stage c"
    by (simp add: spec_localAnswers_def)
  show ?case
  proof (cases "verifyTrialStage w (trAddress t) stage c")
    case (Inl e)
    then show ?thesis
      by (simp add: unf IH spec_answer_def spec_firstPositive_miss split_def Let_def)
  next
    case (Inr resp)
    then show ?thesis
      by (cases "positive resp")
         (simp_all add: unf IH spec_answer_def spec_firstPositive_miss spec_firstPositive_hit split_def Let_def
              fillTrialAddr_def)
  qed
qed

lemma verifyOtherDistrictsStage_spec:
  "verifyOtherDistrictsStage w name districts stage c =
     spec_firstPositive
       (spec_peerAnswers w
          (filter (\<lambda>d. \<not> EqualFold (dName d) name \<and> TrimSpace (dAddress d) \<noteq> []) districts)
          stage c)"
proof (induction districts)
  case Nil
  then show ?case by (simp add: spec_peerAnswers_def spec_firstPositive_Nil)
next
  case (Cons d districts)
  let ?peers = "filter (\<lambda>d. \<not> EqualFold (dName d) name \<and> TrimSpace (dAddress d) \<noteq> []) districts"
  have IH: "verifyOtherDistrictsStage w name districts stage c =
            spec_firstPositive (spec_peerAnswers w ?peers stage c)" by (rule Cons)
  show ?case
  proof (cases "EqualFold (dName d) name \<or> TrimSpace (dAddress d) = []")
    case True
    then show ?thesis using IH by (auto simp: Let_def)
  next
    case False
    then have flt: "filter (\<lambda>d. \<not> EqualFold (dName d) name \<and> TrimSpace (dAddress d) \<noteq> []) (d # districts)
                    = d # ?peers" by simp
    have unf: "spec_peerAnswers w (d # ?peers) stage c =
        (SentQueryDistrict stage (TrimSpace (dAddress d)),
         map_option (fillDistrict d)
           (spec_answer (verifyDistrictStage w (TrimSpace (dAddress d)) stage c)))
        # spec_peerAnswers w ?peers stage c"
      by (simp add: spec_peerAnswers_def)
    show ?thesis
    proof (cases "verifyDistrictStage w (TrimSpace (dAddress d)) stage c")
      case (Inl e)
      then show ?thesis
        using False
        by (simp add: flt unf IH spec_answer_def spec_firstPositive_miss split_def Let_def)
    next
      case (Inr resp)
      then show ?thesis
        using False
        by (cases "positive resp")
           (simp_all add: flt unf IH spec_answer_def spec_firstPositive_miss spec_firstPositive_hit
              split_def Let_def fillDistrict_def)
    qed
  qed
qed

subsection \<open>A positive answer carries the verdict of the stage that was asked\<close>

lemma Some_eq_map_option: "(Some r = map_option f x) = (\<exists>y. x = Some y \<and> r = f y)"
  by (cases x) auto

lemma joinderLoop_tag:
  "joinderLoop q as = Some (m, a) \<Longrightarrow> m = ''joinder_contained'' \<or> m = ''joinder_continent''"
  by (induction as) (auto split: if_splits)

lemma handleLawsuitQuery_tag:
  assumes "tStage req \<in> set spec_stages"
  shows "rSuccess (handleLawsuitQuery ts req) \<and>
         (rMatch (handleLawsuitQuery ts req) = ''none'' \<or>
          stageVerdict (tStage req) (rMatch (handleLawsuitQuery ts req)))"
proof -
  consider "tStage req = ''res_judicata''" | "tStage req = ''lis_pendens''"
    | "tStage req = ''repeated_request''" | "tStage req = ''joinder''"
    | "tStage req = ''connection''"
    using assms by (auto simp: spec_stages_def)
  then show ?thesis
  proof cases
    case 1
    then show ?thesis
      by (simp add: handleLawsuitQuery_def stageVerdict_def Let_def split: option.splits)
  next
    case 2
    then show ?thesis
      by (simp add: handleLawsuitQuery_def stageVerdict_def Let_def split: option.splits)
  next
    case 3
    then show ?thesis
      by (simp add: handleLawsuitQuery_def stageVerdict_def Let_def split: option.splits)
  next
    case 4
    then show ?thesis
      using joinderLoop_tag[of "tLawsuit req" "ActivesLawsuits (state ts)"]
      by (auto simp: handleLawsuitQuery_def stageVerdict_def findJoinder_def Let_def split: option.splits)
  next
    case 5
    then show ?thesis
      by (simp add: handleLawsuitQuery_def stageVerdict_def Let_def split: option.splits)
  qed
qed

lemma verifyTrialStage_eq:
  "verifyTrialStage w a stage c =
     (case trialAt w a of
        None \<Rightarrow> Inl (Transport a)
      | Some ts \<Rightarrow> Inr (handleLawsuitQuery ts
                         (emptyRequest\<lparr>tType := ''lawsuit_query'', tStage := stage, tLawsuit := c\<rparr>)))"
  by (simp add: verifyTrialStage_def handlePacket_def dispatch_def emptyRequest_def
        split: option.splits)

lemma verifyTrialStage_tag:
  assumes "verifyTrialStage w a stage c = Inr r" "stage \<in> set spec_stages"
  shows "rSuccess r \<and> (rMatch r = ''none'' \<or> stageVerdict stage (rMatch r))"
proof -
  obtain ts where "r = handleLawsuitQuery ts
      (emptyRequest\<lparr>tType := ''lawsuit_query'', tStage := stage, tLawsuit := c\<rparr>)"
    using assms(1) by (auto simp: verifyTrialStage_eq split: option.splits)
  then show ?thesis
    using handleLawsuitQuery_tag[of "emptyRequest\<lparr>tType := ''lawsuit_query'', tStage := stage,
        tLawsuit := c\<rparr>" ts] assms(2)
    by simp
qed

lemma spec_firstPositive_Some:
  "spec_firstPositive xs = (Some r, ev) \<Longrightarrow> \<exists>e. (e, Some r) \<in> set xs"
proof (induction xs arbitrary: ev)
  case Nil
  then show ?case by (simp add: spec_firstPositive_Nil)
next
  case (Cons x xs)
  obtain e y where x: "x = (e, y)" by (cases x)
  show ?case
  proof (cases y)
    case None
    then have "fst (spec_firstPositive xs) = Some r"
      using Cons.prems x by (simp add: spec_firstPositive_miss)
    then obtain ev' where "spec_firstPositive xs = (Some r, ev')" by (cases "spec_firstPositive xs") auto
    from Cons.IH[OF this] show ?thesis by auto
  next
    case (Some r')
    then show ?thesis using Cons.prems x by (auto simp: spec_firstPositive_hit)
  qed
qed

lemma fill_simps [simp]:
  "rMatch (fillTrialAddr t r) = rMatch r" "rSuccess (fillTrialAddr t r) = rSuccess r"
  "rMatch (fillDistrict d r) = rMatch r" "rSuccess (fillDistrict d r) = rSuccess r"
  "rLawsuitID (fillTrialAddr t r) = rLawsuitID r" "rLawsuitID (fillDistrict d r) = rLawsuitID r"
  "rTrialAddr (fillDistrict d r) = rTrialAddr r"
  by (simp_all add: fillTrialAddr_def fillDistrict_def)

lemma positive_fill [simp]:
  "positive (fillTrialAddr t r) = positive r" "positive (fillDistrict d r) = positive r"
  by (simp_all add: positive_def)

lemma spec_answer_Some:
  "(spec_answer x = Some r) = (x = Inr r \<and> positive r)"
  by (auto simp: spec_answer_def split: sum.splits)

lemma spec_localAnswers_origin:
  assumes "(e, Some r) \<in> set (spec_localAnswers w trials stage c)"
  shows "\<exists>t r0. t \<in> set trials \<and> verifyTrialStage w (trAddress t) stage c = Inr r0 \<and>
               positive r0 \<and> r = fillTrialAddr t r0"
  using assms unfolding spec_localAnswers_def set_map
  by (cases rule: imageE) (auto simp: Some_eq_map_option spec_answer_Some)

lemma spec_peerAnswers_origin:
  assumes "(e, Some r) \<in> set (spec_peerAnswers w peers stage c)"
  shows "\<exists>d r0. d \<in> set peers \<and> verifyDistrictStage w (TrimSpace (dAddress d)) stage c = Inr r0 \<and>
               positive r0 \<and> r = fillDistrict d r0"
  using assms unfolding spec_peerAnswers_def set_map
  by (cases rule: imageE) (auto simp: Some_eq_map_option spec_answer_Some)

lemma spec_localAnswers_tag:
  assumes "(e, Some r) \<in> set (spec_localAnswers w trials stage c)"
  shows "positive r" and "stage \<in> set spec_stages \<Longrightarrow> stageVerdict stage (rMatch r)"
proof -
  obtain t r0 where v: "verifyTrialStage w (trAddress t) stage c = Inr r0" "positive r0"
      and r: "r = fillTrialAddr t r0"
    using spec_localAnswers_origin[OF assms] by blast
  show "positive r" using v(2) r by simp
  show "stage \<in> set spec_stages \<Longrightarrow> stageVerdict stage (rMatch r)"
    using verifyTrialStage_tag[OF v(1)] v(2) r by (auto simp: positive_def)
qed

lemma verifyLocalTrialsStage_tag:
  assumes "fst (verifyLocalTrialsStage w trials stage c) = Some r"
  shows "positive r" and "stage \<in> set spec_stages \<Longrightarrow> stageVerdict stage (rMatch r)"
proof -
  obtain ev where "spec_firstPositive (spec_localAnswers w trials stage c) = (Some r, ev)"
    using assms unfolding verifyLocalTrialsStage_spec
    by (cases "spec_firstPositive (spec_localAnswers w trials stage c)") auto
  then obtain e where e: "(e, Some r) \<in> set (spec_localAnswers w trials stage c)"
    using spec_firstPositive_Some by blast
  show "positive r" by (rule spec_localAnswers_tag(1)[OF e])
  show "stage \<in> set spec_stages \<Longrightarrow> stageVerdict stage (rMatch r)"
    by (rule spec_localAnswers_tag(2)[OF e])
qed

lemma verifyDistrictStage_tag:
  assumes "verifyDistrictStage w a stage c = Inr r" "positive r" "stage \<in> set spec_stages"
  shows "stageVerdict stage (rMatch r)"
proof -
  obtain peer where p: "districtAt w a = Some peer"
      "r = handleActionQueryDistrict w peer
             (emptyRequest\<lparr>tType := ''lawsuit_query'', tStage := stage, tLawsuit := c\<rparr>)"
    using assms(1)
    by (auto simp: verifyDistrictStage_def serveDatagram_def emptyRequest_def split: option.splits)
  let ?req = "emptyRequest\<lparr>tType := ''lawsuit_query'', tStage := stage, tLawsuit := c\<rparr>"
  have st: "tStage ?req = stage" "tLawsuit ?req = c" by (simp_all add: emptyRequest_def)
  show ?thesis
  proof (cases "fst (verifyLocalTrialsStage w (tlItems peer) stage c)")
    case None
    then have "rMatch r = ''none''"
      using p(2) by (simp add: handleActionQueryDistrict_def st)
    then show ?thesis using assms(2) by (simp add: positive_def)
  next
    case (Some r0)
    note tg = verifyLocalTrialsStage_tag[OF Some]
    have "rMatch r = rMatch r0"
      using p(2) Some tg(1)
      by (auto simp: handleActionQueryDistrict_def st positive_def Let_def split: option.splits)
    then show ?thesis using tg(2)[OF assms(3)] by simp
  qed
qed

lemma spec_peerAnswers_tag:
  assumes "(e, Some r) \<in> set (spec_peerAnswers w peers stage c)"
  shows "positive r" and "stage \<in> set spec_stages \<Longrightarrow> stageVerdict stage (rMatch r)"
proof -
  obtain d r0 where v: "verifyDistrictStage w (TrimSpace (dAddress d)) stage c = Inr r0" "positive r0"
      and r: "r = fillDistrict d r0"
    using spec_peerAnswers_origin[OF assms] by blast
  show "positive r" using v(2) r by simp
  show "stage \<in> set spec_stages \<Longrightarrow> stageVerdict stage (rMatch r)"
    using verifyDistrictStage_tag[OF v] r by simp
qed

lemma spec_stage_tag:
  assumes "spec_stage peers w ag stage c = (Some r, ev)" "stage \<in> set spec_stages"
  shows "rSuccess r \<and> stageVerdict stage (rMatch r)"
proof (cases "spec_firstPositive (spec_localAnswers w (tlItems ag) stage c)")
  case (Pair l evl)
  show ?thesis
  proof (cases l)
    case None
    then obtain ev2 where "spec_firstPositive (spec_peerAnswers w peers stage c) = (Some r, ev2)"
      using assms(1) Pair
      by (auto simp: spec_stage_def split: prod.splits)
    then obtain e where "(e, Some r) \<in> set (spec_peerAnswers w peers stage c)"
      using spec_firstPositive_Some by blast
    then show ?thesis
      using spec_peerAnswers_tag[of e r w peers stage c] assms(2) by (simp add: positive_def)
  next
    case (Some r')
    then have "spec_firstPositive (spec_localAnswers w (tlItems ag) stage c) = (Some r, evl)"
      using assms(1) Pair by (simp add: spec_stage_def)
    then obtain e where "(e, Some r) \<in> set (spec_localAnswers w (tlItems ag) stage c)"
      using spec_firstPositive_Some by blast
    then show ?thesis
      using spec_localAnswers_tag[of e r w "tlItems ag" stage c] assms(2) by (simp add: positive_def)
  qed
qed

lemma stageLookup_spec:
  "stageLookup w ag stage c = spec_stage (spec_peers_with_address ag) w ag stage c"
proof (cases "spec_firstPositive (spec_localAnswers w (tlItems ag) stage c)")
  case (Pair l evl)
  show ?thesis
  proof (cases l)
    case None
    then show ?thesis
      using Pair
      by (simp add: stageLookup_def spec_stage_def verifyLocalTrialsStage_spec needOthers_def
            verifyOtherDistrictsStage_spec spec_peers_with_address_def)
  next
    case (Some r)
    then have "fst (verifyLocalTrialsStage w (tlItems ag) stage c) = Some r"
      using Pair by (simp add: verifyLocalTrialsStage_spec)
    then have "positive r" by (rule verifyLocalTrialsStage_tag(1))
    then have "\<not> needOthers (Some r)" by (simp add: needOthers_def positive_def)
    then show ?thesis
      using Pair Some
      by (simp add: stageLookup_def spec_stage_def verifyLocalTrialsStage_spec)
  qed
qed

subsection \<open>The filing code runs the stages in order\<close>

lemma prependEvents_simps [simp]:
  "prependEvents ev0 (out, ev, w1) = (out, ev0 @ ev, w1)"
  by (simp add: prependEvents_def)

lemma prependEvents_twice:
  "prependEvents ev0 (prependEvents ev1 r) = prependEvents (ev0 @ ev1) r"
  by (cases r) simp

lemma prependEvents_let:
  "(let (out, ev, w1) = r in (out, ev0 @ ev, w1)) = prependEvents ev0 r"
  by (cases r) simp

lemma fileFree_prepend: "fileFree w ag c rnd ev = prependEvents ev (fileFree w ag c rnd [])"
  by (simp add: fileFree_def split_def Let_def prependEvents_def)

lemma stages_mem:
  "''res_judicata'' \<in> set spec_stages" "''lis_pendens'' \<in> set spec_stages"
  "''repeated_request'' \<in> set spec_stages" "''joinder'' \<in> set spec_stages"
  "''connection'' \<in> set spec_stages"
  by (simp_all add: spec_stages_def)

lemma spec_pipeline_step:
  "spec_pipeline peers w ag c rnd (stage # later) =
     (case spec_stage peers w ag stage c of
        (Some resp, ev) \<Rightarrow> prependEvents ev (spec_dispatch w c stage resp)
      | (None, ev) \<Rightarrow> prependEvents ev (spec_pipeline peers w ag c rnd later))"
  by (simp add: prependEvents_let split: prod.splits option.splits)

lemma fileConnection_spec:
  "fileConnection w ag c rnd ev0 =
     prependEvents ev0 (spec_pipeline (spec_peers_with_address ag) w ag c rnd [''connection''])"
proof (cases "spec_stage (spec_peers_with_address ag) w ag ''connection'' c")
  case (Pair r ev5)
  show ?thesis
  proof (cases r)
    case None
    then show ?thesis
      using Pair
      by (simp add: fileConnection_def stageLookup_spec spec_pipeline_step prependEvents_twice
            fileFree_prepend[of w ag c rnd "ev0 @ ev5"]
            del: spec_pipeline.simps(2))
  next
    case (Some resp)
    then have tg: "rSuccess resp" "rMatch resp = ''connection''"
      using spec_stage_tag[of _ w ag "''connection''" c resp ev5] Pair stages_mem
      by (simp_all add: stageVerdict_def)
    show ?thesis
      using Pair Some tg
      by (simp add: fileConnection_def stageLookup_spec spec_pipeline_step spec_dispatch_def
            split_def Let_def prependEvents_def del: spec_pipeline.simps(2))
  qed
qed

lemma fileJoinder_spec:
  "fileJoinder w ag c rnd ev0 =
     prependEvents ev0
       (spec_pipeline (spec_peers_with_address ag) w ag c rnd [''joinder'', ''connection''])"
proof (cases "spec_stage (spec_peers_with_address ag) w ag ''joinder'' c")
  case (Pair r ev4)
  show ?thesis
  proof (cases r)
    case None
    then show ?thesis
      using Pair
      by (simp add: fileJoinder_def stageLookup_spec spec_pipeline_step[where stage = "''joinder''"]
            prependEvents_twice fileConnection_spec[of w ag c rnd "ev0 @ ev4"]
            del: spec_pipeline.simps(2))
  next
    case (Some resp)
    then have tg: "rSuccess resp"
        "rMatch resp = ''joinder_contained'' \<or> rMatch resp = ''joinder_continent''"
      using spec_stage_tag[of _ w ag "''joinder''" c resp ev4] Pair stages_mem
      by (simp_all add: stageVerdict_def)
    show ?thesis
      using Pair Some tg
      by (auto simp add: fileJoinder_def stageLookup_spec
            spec_pipeline_step[where stage = "''joinder''"] spec_dispatch_def
            split_def Let_def prependEvents_def simp del: spec_pipeline.simps(2))
  qed
qed

lemma fileRepeatedRequest_spec:
  "fileRepeatedRequest w ag c rnd ev0 =
     prependEvents ev0
       (spec_pipeline (spec_peers_with_address ag) w ag c rnd
          [''repeated_request'', ''joinder'', ''connection''])"
proof (cases "spec_stage (spec_peers_with_address ag) w ag ''repeated_request'' c")
  case (Pair r ev3)
  show ?thesis
  proof (cases r)
    case None
    then show ?thesis
      using Pair
      by (simp add: fileRepeatedRequest_def stageLookup_spec
            spec_pipeline_step[where stage = "''repeated_request''"]
            prependEvents_twice fileJoinder_spec[of w ag c rnd "ev0 @ ev3"]
            del: spec_pipeline.simps(2))
  next
    case (Some resp)
    then have tg: "rSuccess resp" "rMatch resp = ''repeated_request''"
      using spec_stage_tag[of _ w ag "''repeated_request''" c resp ev3] Pair stages_mem
      by (simp_all add: stageVerdict_def)
    show ?thesis
      using Pair Some tg
      by (simp add: fileRepeatedRequest_def stageLookup_spec
            spec_pipeline_step[where stage = "''repeated_request''"] spec_dispatch_def
            split_def Let_def prependEvents_def del: spec_pipeline.simps(2))
  qed
qed

lemma fileLisPendens_spec:
  "fileLisPendens w ag c rnd ev0 =
     prependEvents ev0
       (spec_pipeline (spec_peers_with_address ag) w ag c rnd
          [''lis_pendens'', ''repeated_request'', ''joinder'', ''connection''])"
proof (cases "spec_stage (spec_peers_with_address ag) w ag ''lis_pendens'' c")
  case (Pair r ev2)
  show ?thesis
  proof (cases r)
    case None
    then show ?thesis
      using Pair
      by (simp add: fileLisPendens_def stageLookup_spec
            spec_pipeline_step[where stage = "''lis_pendens''"]
            prependEvents_twice fileRepeatedRequest_spec[of w ag c rnd "ev0 @ ev2"]
            del: spec_pipeline.simps(2))
  next
    case (Some resp)
    then have tg: "rSuccess resp" "rMatch resp = ''lis_pendens''"
      using spec_stage_tag[of _ w ag "''lis_pendens''" c resp ev2] Pair stages_mem
      by (simp_all add: stageVerdict_def)
    show ?thesis
      using Pair Some tg
      by (simp add: fileLisPendens_def stageLookup_spec
            spec_pipeline_step[where stage = "''lis_pendens''"] spec_dispatch_def
            split_def Let_def prependEvents_def del: spec_pipeline.simps(2))
  qed
qed

lemma fileLawsuit_spec:
  "fileLawsuit w ag c rnd =
     spec_pipeline (spec_peers_with_address ag) w ag c rnd spec_stages"
proof -
  let ?P = "spec_peers_with_address ag"
  let ?rest = "[''lis_pendens'', ''repeated_request'', ''joinder'', ''connection'']"
  have stages: "spec_stages = ''res_judicata'' # ?rest" by (simp add: spec_stages_def)
  have step1: "spec_pipeline ?P w ag c rnd spec_stages =
      (case spec_stage ?P w ag ''res_judicata'' c of
         (Some resp, ev) \<Rightarrow> prependEvents ev (spec_dispatch w c ''res_judicata'' resp)
       | (None, ev) \<Rightarrow> prependEvents ev (spec_pipeline ?P w ag c rnd ?rest))"
    unfolding stages by (rule spec_pipeline_step)
  obtain l ev1 where loc: "spec_firstPositive (spec_localAnswers w (tlItems ag) ''res_judicata'' c) = (l, ev1)"
    by (cases "spec_firstPositive (spec_localAnswers w (tlItems ag) ''res_judicata'' c)")
  show ?thesis
  proof (cases l)
    case (Some r)
    have st: "spec_stage ?P w ag ''res_judicata'' c = (Some r, ev1)"
      using loc Some by (simp add: spec_stage_def)
    have tg: "rSuccess r" "rMatch r = ''res_judicata''"
      using spec_stage_tag[OF st stages_mem(1)] by (simp_all add: stageVerdict_def)
    show ?thesis
      unfolding step1 st
      using loc Some tg
      by (simp add: fileLawsuit_def verifyLocalTrialsStage_spec spec_dispatch_def)
  next
    case None
    obtain r2 ev2 where oth: "spec_firstPositive (spec_peerAnswers w ?P ''res_judicata'' c) = (r2, ev2)"
      by (cases "spec_firstPositive (spec_peerAnswers w ?P ''res_judicata'' c)")
    have st: "spec_stage ?P w ag ''res_judicata'' c = (r2, ev1 @ ev2)"
      using loc None oth by (simp add: spec_stage_def)
    have oth': "verifyOtherDistrictsStage w (nameDistrict ag) (dlItems ag) ''res_judicata'' c = (r2, ev2)"
      using oth by (simp add: verifyOtherDistrictsStage_spec spec_peers_with_address_def)
    show ?thesis
    proof (cases r2)
      case None2: None
      show ?thesis
        unfolding step1 st
        using loc None oth' None2
        by (simp add: fileLawsuit_def verifyLocalTrialsStage_spec needOthers_def
              fileLisPendens_spec[of w ag c rnd "ev1 @ ev2"] del: spec_pipeline.simps(2))
    next
      case (Some resp)
      have tg: "rSuccess resp" "rMatch resp = ''res_judicata''"
        using spec_stage_tag[of ?P w ag "''res_judicata''" c resp "ev1 @ ev2"] st Some stages_mem(1)
        by (simp_all add: stageVerdict_def)
      show ?thesis
        unfolding step1 st
        using loc None oth' Some tg
        by (simp add: fileLawsuit_def verifyLocalTrialsStage_spec needOthers_def spec_dispatch_def)
    qed
  qed
qed

end
